theory Spec2Isabelle
  imports Complex_Main
begin

section \<open>The center-crop binding of TransformsHostObject.cpp\<close>

text \<open>
  The file binds one operation, \<open>centerCrop(width?, height?)(tensor)\<close>, to a scripting
  runtime. The embedding follows the two nested lambdas of \<open>createCenterCrop\<close>:
  \<open>centerCropFactoryFunc\<close> reads the arguments of the outer call and captures
  \<open>width\<close> and \<open>height\<close>; \<open>centerCropFunc\<close> is the inner lambda, run on every
  invocation of the produced callable. Exceptions and undefined behaviour are values of
  the type \<open>failure\<close>; the runtime's host objects are an explicit store.
\<close>

subsection \<open>C++ integers\<close>

text \<open>
  \<open>int\<close> is 32 bits wide. Values of type \<open>int\<close> are HOL integers between
  \<open>INT_MIN\<close> and \<open>INT_MAX\<close>; an operation whose mathematical result leaves that range
  is written out: the conversion from \<open>int64_t\<close> wraps, signed overflow and an
  out-of-range conversion from \<open>double\<close> are undefined behaviour.
\<close>

definition INT_MIN :: int where
  "INT_MIN = - 2147483648"

definition INT_MAX :: int where
  "INT_MAX = 2147483647"

definition in_int_range :: "int \<Rightarrow> bool" where
  "in_int_range v = (INT_MIN \<le> v \<and> v \<le> INT_MAX)"

datatype failure =
    JSError string
  | NotANumber
  | TensorTypeError
  | InvalidRange
  | UndefinedBehaviour

text \<open>
  \<open>JSError\<close> is the \<open>jsi::JSError\<close> the binding throws itself, with its message.
  \<open>NotANumber\<close> is the error of \<open>jsi::Value::asNumber\<close> on a value that is not a number.
  \<open>TensorTypeError\<close> is the error of \<open>parseTensor\<close> and \<open>InvalidRange\<close> the one of
  \<open>narrow\<close> (both modelled below). \<open>UndefinedBehaviour\<close> stands for an execution the
  C++ standard gives no meaning to.
\<close>

text \<open>The implicit conversion \<open>int64_t\<close> to \<open>int\<close>: the value modulo \<open>2^32\<close>, signed.\<close>

definition int_of_int64 :: "int \<Rightarrow> int" where
  "int_of_int64 v = (v + 2147483648) mod 4294967296 - 2147483648"

text \<open>\<open>a - b\<close> on \<open>int\<close>: undefined when the difference is not representable.\<close>

definition int_sub :: "int \<Rightarrow> int \<Rightarrow> failure + int" where
  "int_sub a b = (if in_int_range (a - b) then Inr (a - b) else Inl UndefinedBehaviour)"

text \<open>\<open>a / b\<close> on \<open>int\<close> rounds towards zero (the divisor of the source is the constant 2).\<close>

definition int_div :: "int \<Rightarrow> int \<Rightarrow> int" where
  "int_div a b = (if (a < 0) = (b < 0) then \<bar>a\<bar> div \<bar>b\<bar> else - (\<bar>a\<bar> div \<bar>b\<bar>))"

text \<open>
  A scripting number is a \<open>double\<close>: a finite value (a real number here), a NaN or an
  infinity. Its conversion to \<open>int\<close> drops the fraction; it is undefined when the result
  is not representable.
\<close>

datatype double = Finite real | NaN | PosInfinity | NegInfinity

definition trunc :: "real \<Rightarrow> int" where
  "trunc r = (if 0 \<le> r then \<lfloor>r\<rfloor> else \<lceil>r\<rceil>)"

definition int_of_double :: "double \<Rightarrow> failure + int" where
  "int_of_double d =
     (case d of
        Finite r \<Rightarrow>
          if in_int_range (trunc r) then Inr (trunc r) else Inl UndefinedBehaviour
      | _ \<Rightarrow> Inl UndefinedBehaviour)"

text \<open>
  Unsigned subtraction on \<open>size_t\<close> (64 bits): it wraps around instead of going below
  zero. For operands below \<open>2^64\<close> the result is \<open>(a - b) mod 2^64\<close>.
\<close>

definition size_t_sub :: "nat \<Rightarrow> nat \<Rightarrow> nat" where
  "size_t_sub a b = (if b \<le> a then a - b else a + 18446744073709551616 - b)"

subsection \<open>Tensors, scripting values and the runtime's objects\<close>

text \<open>
  A tensor is its shape and its elements, an element being addressed by one index per
  dimension. \<open>sizes\<close> holds \<open>int64_t\<close> values.
\<close>

record 'a tensor =
  sizes :: "int list"
  elem :: "int list \<Rightarrow> 'a"

definition ndimension :: "'a tensor \<Rightarrow> int" where
  "ndimension t = int (length (sizes t))"

text \<open>\<open>ArrayRef::operator[]\<close> does not check its index: a read past the end is undefined.\<close>

definition at_index :: "'b list \<Rightarrow> nat \<Rightarrow> 'b option" where
  "at_index xs i = (if i < length xs then Some (xs ! i) else None)"

datatype 'a host_object = TensorHostObject "'a tensor" | OtherObject

datatype jsi_Value =
    JSUndefined
  | JSNull
  | JSBool bool
  | JSNumber double
  | JSString string
  | JSObject nat

text \<open>
  The runtime owns the objects the script can reach; a \<open>JSObject\<close> value refers to one by
  its position. Creating an object appends it.
\<close>

type_synonym 'a runtime = "'a host_object list"

definition asNumber :: "jsi_Value \<Rightarrow> failure + double" where
  "asNumber v = (case v of JSNumber d \<Rightarrow> Inr d | _ \<Rightarrow> Inl NotANumber)"

definition createFromHostObject :: "'a runtime \<Rightarrow> 'a host_object \<Rightarrow> jsi_Value \<times> 'a runtime" where
  "createFromHostObject rt ob = (JSObject (length rt), rt @ [ob])"

text \<open>
  Modelled from the spec: \<open>utils::helpers::parseTensor\<close> is declared in
  \<open>torch/utils/helpers.h\<close>, which is not among the sources. The spec: the argument
  "must be convertible to a native tensor handle"; "a non-tensor argument fails with a
  type/argument error surfaced to the caller".
\<close>

definition parseTensor :: "'a runtime \<Rightarrow> jsi_Value \<Rightarrow> failure + 'a tensor" where
  "parseTensor rt v =
     (case v of
        JSObject a \<Rightarrow>
          (case at_index rt a of
             Some (TensorHostObject t) \<Rightarrow> Inr t
           | _ \<Rightarrow> Inl TensorTypeError)
      | _ \<Rightarrow> Inl TensorTypeError)"

text \<open>
  Modelled from the spec: \<open>Tensor::narrow\<close> belongs to the native tensor library, which
  is not among the sources. The spec: a "dimension-restriction (slicing) primitive"
  that produces "a new tensor view by restricting" a dimension to
  \<open>[start, start + length)\<close>; a range that is negative or exceeds the dimension is an
  "invalid range". The view has the length as its size in that dimension, and its
  element at index \<open>i\<close> there is the source's element at \<open>start + i\<close>.
\<close>

definition narrow :: "'a tensor \<Rightarrow> int \<Rightarrow> int \<Rightarrow> int \<Rightarrow> failure + 'a tensor" where
  "narrow t d start len =
     (if 0 \<le> d \<and> d < ndimension t \<and> 0 \<le> start \<and> 0 \<le> len
         \<and> start + len \<le> sizes t ! nat d
      then Inr (t\<lparr>sizes := (sizes t)[nat d := len],
                 elem := (\<lambda>ix. elem t (ix[nat d := ix ! nat d + start]))\<rparr>)
      else Inl InvalidRange)"

subsection \<open>getImageSize\<close>

text \<open>
  \<open>size[0]\<close> is the last dimension (the width), \<open>size[1]\<close> the one before it (the
  height). \<open>length\<close> is unsigned, so \<open>length - 1\<close> and \<open>length - 2\<close> wrap around for a
  tensor of fewer dimensions, and the read is past the end.
\<close>

definition getImageSize :: "'a tensor \<Rightarrow> failure + (int \<times> int)" where
  "getImageSize t =
     (let n = length (sizes t) in
      case at_index (sizes t) (size_t_sub n 1) of
        None \<Rightarrow> Inl UndefinedBehaviour
      | Some s0 \<Rightarrow>
          (case at_index (sizes t) (size_t_sub n 2) of
             None \<Rightarrow> Inl UndefinedBehaviour
           | Some s1 \<Rightarrow> Inr (int_of_int64 s0, int_of_int64 s1)))"

subsection \<open>The factory: centerCropFactoryFunc\<close>

text \<open>The values the inner lambda captures by copy: \<open>[width, height]\<close>.\<close>

record crop_spec =
  width :: int
  height :: int

definition centerCropFactoryFunc :: "jsi_Value list \<Rightarrow> failure + crop_spec" where
  "centerCropFactoryFunc arguments =
     (let count = length arguments in
      case (if count > 0
            then (case asNumber (arguments ! 0) of
                    Inl e \<Rightarrow> Inl e
                  | Inr d \<Rightarrow> int_of_double d)
            else Inr (- 1)) of
        Inl e \<Rightarrow> Inl e
      | Inr w \<Rightarrow>
          (case (if count > 1
                 then (case asNumber (arguments ! 1) of
                         Inl e \<Rightarrow> Inl e
                       | Inr d \<Rightarrow> int_of_double d)
                 else Inr (- 1)) of
             Inl e \<Rightarrow> Inl e
           | Inr h \<Rightarrow> Inr \<lparr>width = w, height = h\<rparr>))"

subsection \<open>The invocation: centerCropFunc\<close>

text \<open>
  The crop size of lines 116 to 124: \<open>(cropHeight, cropWidth)\<close> from the captured values
  and the image size \<open>(size[0], size[1])\<close> of \<open>getImageSize\<close>.
\<close>

definition cropSize :: "crop_spec \<Rightarrow> int \<times> int \<Rightarrow> int \<times> int" where
  "cropSize spec imageSize =
     (let cropHeight = height spec; cropWidth = width spec in
      if cropWidth = - 1
      then (let minSize = min (fst imageSize) (snd imageSize) in (minSize, minSize))
      else if cropHeight = - 1 then (cropWidth, cropWidth)
      else (cropHeight, cropWidth))"

text \<open>The geometry of one invocation: the crop size and the offsets of lines 126 and 127.\<close>

record crop_geometry =
  cropHeight :: int
  cropWidth :: int
  cropTop :: int
  cropLeft :: int

definition cropGeometry :: "crop_spec \<Rightarrow> int \<times> int \<Rightarrow> failure + crop_geometry" where
  "cropGeometry spec imageSize =
     (case cropSize spec imageSize of
        (ch, cw) \<Rightarrow>
          (case int_sub (snd imageSize) ch of
             Inl e \<Rightarrow> Inl e
           | Inr dh \<Rightarrow>
               (case int_sub (fst imageSize) cw of
                  Inl e \<Rightarrow> Inl e
                | Inr dw \<Rightarrow>
                    Inr \<lparr>cropHeight = ch, cropWidth = cw,
                         cropTop = int_div dh 2, cropLeft = int_div dw 2\<rparr>)))"

text \<open>
  Lines 131 to 133: the two calls of the slicing primitive, on the last two dimensions.
  The primitive is a parameter, \<open>slice\<close>; the binding calls \<open>narrow\<close>.
\<close>

definition narrowToCropWith ::
  "('a tensor \<Rightarrow> int \<Rightarrow> int \<Rightarrow> int \<Rightarrow> failure + 'a tensor) \<Rightarrow>
   'a tensor \<Rightarrow> crop_geometry \<Rightarrow> failure + 'a tensor" where
  "narrowToCropWith slice t g =
     (let dims = ndimension t in
      case slice t (dims - 2) (cropTop g) (cropHeight g) of
        Inl e \<Rightarrow> Inl e
      | Inr t1 \<Rightarrow> slice t1 (dims - 1) (cropLeft g) (cropWidth g))"

definition narrowToCrop :: "'a tensor \<Rightarrow> crop_geometry \<Rightarrow> failure + 'a tensor" where
  "narrowToCrop t g = narrowToCropWith narrow t g"

text \<open>
  The inner lambda, with the slicing primitive it calls as a parameter. It returns the
  value handed to the script, or the failure, and the runtime's objects after the call:
  only a successful call creates an object.
\<close>

definition centerCropFuncWith ::
  "('a tensor \<Rightarrow> int \<Rightarrow> int \<Rightarrow> int \<Rightarrow> failure + 'a tensor) \<Rightarrow>
   crop_spec \<Rightarrow> 'a runtime \<Rightarrow> jsi_Value list \<Rightarrow> (failure + jsi_Value) \<times> 'a runtime" where
  "centerCropFuncWith slice spec rt innerArguments =
     (if length innerArguments \<noteq> 1
      then (Inl (JSError ''Tensor required as argument''), rt)
      else
        case parseTensor rt (innerArguments ! 0) of
          Inl e \<Rightarrow> (Inl e, rt)
        | Inr t \<Rightarrow>
            (case getImageSize t of
               Inl e \<Rightarrow> (Inl e, rt)
             | Inr imageSize \<Rightarrow>
                 (case cropGeometry spec imageSize of
                    Inl e \<Rightarrow> (Inl e, rt)
                  | Inr g \<Rightarrow>
                      (case narrowToCropWith slice t g of
                         Inl e \<Rightarrow> (Inl e, rt)
                       | Inr cropped \<Rightarrow>
                           (case createFromHostObject rt (TensorHostObject cropped) of
                              (v, rt') \<Rightarrow> (Inr v, rt'))))))"

text \<open>The inner lambda of the source: the primitive is \<open>Tensor::narrow\<close>.\<close>

definition centerCropFunc ::
  "crop_spec \<Rightarrow> 'a runtime \<Rightarrow> jsi_Value list \<Rightarrow> (failure + jsi_Value) \<times> 'a runtime" where
  "centerCropFunc spec rt innerArguments = centerCropFuncWith narrow spec rt innerArguments"

text \<open>The tensor a call returned, read back from the runtime.\<close>

definition returnedTensor ::
  "(failure + jsi_Value) \<times> 'a runtime \<Rightarrow> failure + 'a tensor" where
  "returnedTensor r = (case fst r of Inl e \<Rightarrow> Inl e | Inr v \<Rightarrow> parseTensor (snd r) v)"

text \<open>
  The geometry an invocation resolves for a tensor: the image size read by
  \<open>getImageSize\<close>, then the crop size and the offsets.
\<close>

definition invocationGeometry :: "crop_spec \<Rightarrow> 'a tensor \<Rightarrow> failure + crop_geometry" where
  "invocationGeometry spec t =
     (case getImageSize t of Inl e \<Rightarrow> Inl e | Inr sz \<Rightarrow> cropGeometry spec sz)"

subsection \<open>Inputs for the worked examples\<close>

text \<open>A tensor of a given shape whose element at an index is that index.\<close>

definition index_tensor :: "int list \<Rightarrow> (int list) tensor" where
  "index_tensor shape = \<lparr>sizes = shape, elem = (\<lambda>ix. ix)\<rparr>"

text \<open>
  A slicing primitive that accepts every range: it sets the size and shifts the index,
  whatever the start and the length are.
\<close>

definition unchecked_slice :: "'a tensor \<Rightarrow> int \<Rightarrow> int \<Rightarrow> int \<Rightarrow> failure + 'a tensor" where
  "unchecked_slice t d start len =
     Inr (t\<lparr>sizes := (sizes t)[nat d := len],
            elem := (\<lambda>ix. elem t (ix[nat d := ix ! nat d + start]))\<rparr>)"

section \<open>Properties\<close>

subsection \<open>The steps of an invocation\<close>

lemma narrowToCrop_unfold:
  "narrowToCrop t g =
     (let dims = ndimension t in
      case narrow t (dims - 2) (cropTop g) (cropHeight g) of
        Inl e \<Rightarrow> Inl e
      | Inr t1 \<Rightarrow> narrow t1 (dims - 1) (cropLeft g) (cropWidth g))"
  by (simp add: narrowToCrop_def narrowToCropWith_def)

lemma centerCropFunc_unfold:
  "centerCropFunc spec rt innerArguments =
     (if length innerArguments \<noteq> 1
      then (Inl (JSError ''Tensor required as argument''), rt)
      else
        case parseTensor rt (innerArguments ! 0) of
          Inl e \<Rightarrow> (Inl e, rt)
        | Inr t \<Rightarrow>
            (case getImageSize t of
               Inl e \<Rightarrow> (Inl e, rt)
             | Inr imageSize \<Rightarrow>
                 (case cropGeometry spec imageSize of
                    Inl e \<Rightarrow> (Inl e, rt)
                  | Inr g \<Rightarrow>
                      (case narrowToCrop t g of
                         Inl e \<Rightarrow> (Inl e, rt)
                       | Inr cropped \<Rightarrow>
                           (case createFromHostObject rt (TensorHostObject cropped) of
                              (v, rt') \<Rightarrow> (Inr v, rt'))))))"
  unfolding centerCropFunc_def centerCropFuncWith_def narrowToCrop_def ..

lemma int_div_2_nonneg: "0 \<le> a \<Longrightarrow> int_div a 2 = a div 2"
  by (simp add: int_div_def)

lemma int_div_2_neg: "a < 0 \<Longrightarrow> int_div a 2 = - ((- a) div 2)"
  by (simp add: int_div_def)

lemma getImageSize_short:
  "length (sizes t) < 2 \<Longrightarrow> getImageSize t = Inl UndefinedBehaviour"
  by (auto simp add: getImageSize_def at_index_def size_t_sub_def Let_def split: option.splits)

lemma int_of_int64_id: "in_int_range v \<Longrightarrow> int_of_int64 v = v"
  by (simp add: int_of_int64_def in_int_range_def INT_MIN_def INT_MAX_def)

lemma getImageSize_last_two:
  "sizes t = lead @ [H, W] \<Longrightarrow> getImageSize t = Inr (int_of_int64 W, int_of_int64 H)"
  by (simp add: getImageSize_def at_index_def size_t_sub_def nth_append)

lemma narrow_height:
  assumes "sizes t = lead @ [H, W]" and "0 \<le> tp" and "0 \<le> ch" and "tp + ch \<le> H"
  shows "narrow t (ndimension t - 2) tp ch =
           Inr (t\<lparr>sizes := lead @ [ch, W],
                  elem := (\<lambda>ix. elem t (ix[length lead := ix ! length lead + tp]))\<rparr>)"
proof -
  have d: "ndimension t - 2 = int (length lead)"
    using assms(1) by (simp add: ndimension_def)
  show ?thesis
    unfolding narrow_def d using assms by (simp add: ndimension_def)
qed

lemma narrow_width:
  assumes "sizes t = lead @ [H, W]" and "0 \<le> lf" and "0 \<le> cw" and "lf + cw \<le> W"
  shows "narrow t (ndimension t - 1) lf cw =
           Inr (t\<lparr>sizes := lead @ [H, cw],
                  elem := (\<lambda>ix. elem t (ix[Suc (length lead) := ix ! Suc (length lead) + lf]))\<rparr>)"
proof -
  have d: "ndimension t - 1 = int (Suc (length lead))"
    using assms(1) by (simp add: ndimension_def)
  show ?thesis
    unfolding narrow_def d nat_int using assms
    by (simp add: ndimension_def nth_append list_update_append)
qed

lemma narrowToCrop_in_range:
  assumes "sizes t = lead @ [H, W]"
      and "0 \<le> cropTop g" and "0 \<le> cropHeight g" and "cropTop g + cropHeight g \<le> H"
      and "0 \<le> cropLeft g" and "0 \<le> cropWidth g" and "cropLeft g + cropWidth g \<le> W"
  shows "\<exists>r. narrowToCrop t g = Inr r \<and> sizes r = lead @ [cropHeight g, cropWidth g]
            \<and> (\<forall>pre i j. length pre = length lead \<longrightarrow>
                  elem r (pre @ [i, j]) = elem t (pre @ [i + cropTop g, j + cropLeft g]))"
proof -
  let ?t1 = "t\<lparr>sizes := lead @ [cropHeight g, W],
                elem := (\<lambda>ix. elem t (ix[length lead := ix ! length lead + cropTop g]))\<rparr>"
  have n1: "narrow t (ndimension t - 2) (cropTop g) (cropHeight g) = Inr ?t1"
    using assms by (simp add: narrow_height)
  have s1: "sizes ?t1 = lead @ [cropHeight g, W]" by simp
  have d: "ndimension ?t1 = ndimension t"
    using assms(1) by (simp add: ndimension_def)
  have n2: "narrow ?t1 (ndimension t - 1) (cropLeft g) (cropWidth g) =
      Inr (?t1\<lparr>sizes := lead @ [cropHeight g, cropWidth g],
                 elem := (\<lambda>ix. elem ?t1 (ix[Suc (length lead) := ix ! Suc (length lead) + cropLeft g]))\<rparr>)"
    using narrow_width [OF s1 assms(5) assms(6) assms(7)] d by simp
  show ?thesis
    unfolding narrowToCrop_unfold Let_def n1 using n2
    by (simp add: nth_append list_update_append)
qed

lemma centerCropFunc_returns:
  assumes "parseTensor rt v = Inr t" and "getImageSize t = Inr sz"
      and "cropGeometry spec sz = Inr g" and "narrowToCrop t g = Inr r"
  shows "centerCropFunc spec rt [v] = (Inr (JSObject (length rt)), rt @ [TensorHostObject r])"
  using assms by (simp add: centerCropFunc_unfold createFromHostObject_def)

lemma returnedTensor_created:
  "returnedTensor (Inr (JSObject (length rt)), rt @ [TensorHostObject r]) = Inr r"
  by (simp add: returnedTensor_def parseTensor_def at_index_def)

lemma parseTensor_single:
  "parseTensor [TensorHostObject t] (JSObject 0) = Inr t"
  by (simp add: parseTensor_def at_index_def)

lemma cropGeometry_defined:
  assumes "cropSize spec sz = (ch, cw)"
      and "in_int_range (snd sz - ch)" and "in_int_range (fst sz - cw)"
  shows "cropGeometry spec sz =
           Inr \<lparr>cropHeight = ch, cropWidth = cw,
                cropTop = int_div (snd sz - ch) 2, cropLeft = int_div (fst sz - cw) 2\<rparr>"
  using assms by (simp add: cropGeometry_def int_sub_def)

lemma centerCropFunc_narrows:
  assumes "parseTensor rt v = Inr t" and "getImageSize t = Inr sz"
      and "cropGeometry spec sz = Inr g"
  shows "centerCropFunc spec rt [v] =
           (case narrowToCrop t g of
              Inl e \<Rightarrow> (Inl e, rt)
            | Inr c \<Rightarrow> (Inr (JSObject (length rt)), rt @ [TensorHostObject c]))"
  using assms by (simp add: centerCropFunc_unfold createFromHostObject_def split: sum.splits)

lemma returnedTensor_centerCropFunc:
  assumes "parseTensor rt v = Inr t"
  shows "returnedTensor (centerCropFunc spec rt [v]) =
           (case getImageSize t of
              Inl e \<Rightarrow> Inl e
            | Inr sz \<Rightarrow>
                (case cropGeometry spec sz of
                   Inl e \<Rightarrow> Inl e
                 | Inr g \<Rightarrow> narrowToCrop t g))"
  using assms
  by (simp add: centerCropFunc_unfold createFromHostObject_def returnedTensor_def
      parseTensor_def at_index_def split: sum.splits)

subsection \<open>The crop offsets\<close>

text \<open>
  Claim C1, as amended. For a tensor whose last two dimensions
  \<open>(imageHeight, imageWidth)\<close> are values of \<open>int\<close>, and the resolved crop size
  \<open>(ch, cw)\<close>, the invocation reads the image size, computes the top offset
  \<open>(imageHeight - ch) / 2\<close> and the left offset \<open>(imageWidth - cw) / 2\<close> with the
  division of C, which rounds towards zero (it is the floor of the quotient when the
  difference is not negative), and narrows the tensor with these offsets. The differences
  are representable, so that the C expressions are defined. With height 9 and crop height
  4 the top offset is 2.
\<close>

theorem crop_offsets:
  assumes "parseTensor rt v = Inr t"
      and "sizes t = lead @ [imageHeight, imageWidth]"
      and "in_int_range imageHeight" and "in_int_range imageWidth"
      and "cropSize spec (imageWidth, imageHeight) = (ch, cw)"
      and "in_int_range (imageHeight - ch)" and "in_int_range (imageWidth - cw)"
  shows "\<exists>g. getImageSize t = Inr (imageWidth, imageHeight)
           \<and> cropGeometry spec (imageWidth, imageHeight) = Inr g
           \<and> cropHeight g = ch \<and> cropWidth g = cw
           \<and> cropTop g = (if ch \<le> imageHeight then (imageHeight - ch) div 2
                           else - ((ch - imageHeight) div 2))
           \<and> cropLeft g = (if cw \<le> imageWidth then (imageWidth - cw) div 2
                            else - ((cw - imageWidth) div 2))
           \<and> centerCropFunc spec rt [v] =
                (case narrowToCrop t g of
                   Inl e \<Rightarrow> (Inl e, rt)
                 | Inr c \<Rightarrow> (Inr (JSObject (length rt)), rt @ [TensorHostObject c]))"
proof -
  let ?g = "\<lparr>cropHeight = ch, cropWidth = cw,
             cropTop = int_div (imageHeight - ch) 2, cropLeft = int_div (imageWidth - cw) 2\<rparr>"
  have sz: "getImageSize t = Inr (imageWidth, imageHeight)"
    using getImageSize_last_two [OF assms(2)] assms(3,4) by (simp add: int_of_int64_id)
  have g: "cropGeometry spec (imageWidth, imageHeight) = Inr ?g"
    using cropGeometry_defined [OF assms(5)] assms(6,7) by simp
  have tp: "cropTop ?g = (if ch \<le> imageHeight then (imageHeight - ch) div 2
                           else - ((ch - imageHeight) div 2))"
    by (simp add: int_div_def)
  have lf: "cropLeft ?g = (if cw \<le> imageWidth then (imageWidth - cw) div 2
                            else - ((cw - imageWidth) div 2))"
    by (simp add: int_div_def)
  have run: "centerCropFunc spec rt [v] =
                (case narrowToCrop t ?g of
                   Inl e \<Rightarrow> (Inl e, rt)
                 | Inr c \<Rightarrow> (Inr (JSObject (length rt)), rt @ [TensorHostObject c]))"
    by (rule centerCropFunc_narrows [OF assms(1) sz g])
  from sz g tp lf run show ?thesis by (intro exI [of _ ?g]) simp
qed

theorem crop_offsets_witness:
  "sizes (index_tensor [9, 9]) = [] @ [9, 9]
   \<and> cropSize \<lparr>width = 4, height = 4\<rparr> (9, 9) = (4, 4)
   \<and> (\<exists>g. cropGeometry \<lparr>width = 4, height = 4\<rparr> (9, 9) = Inr g
          \<and> cropTop g = 2 \<and> cropLeft g = 2)"
proof -
  have s: "sizes (index_tensor [9, 9]) = [] @ [9, 9]"
    by (simp add: index_tensor_def)
  have c: "cropSize \<lparr>width = 4, height = 4\<rparr> (9, 9) = (4, 4)"
    by (simp add: cropSize_def)
  have r: "in_int_range 9" "in_int_range (9 - 4)"
    by (simp_all add: in_int_range_def INT_MIN_def INT_MAX_def)
  from crop_offsets [OF parseTensor_single s r(1) r(1) c r(2) r(2)] s c
  show ?thesis by auto
qed

text \<open>
  The claim as stated, for every tensor, fails: \<open>getImageSize\<close> keeps the sizes in
  \<open>int\<close>. A tensor of shape \<open>[0, 4294967305, 9]\<close> (it has no elements) has the
  height \<open>2^32 + 9\<close>, which is read as 9, so that the top offset of a crop of height 4
  is 2 and not \<open>(4294967305 - 4) / 2\<close>.
\<close>

theorem crop_offsets_counterexample:
  "sizes (index_tensor [0, 4294967305, 9]) = [0, 4294967305, 9]
   \<and> getImageSize (index_tensor [0, 4294967305, 9]) = Inr (9, 9)
   \<and> invocationGeometry \<lparr>width = 4, height = 4\<rparr> (index_tensor [0, 4294967305, 9]) =
        Inr \<lparr>cropHeight = 4, cropWidth = 4, cropTop = 2, cropLeft = 2\<rparr>
   \<and> (4294967305 - 4) div 2 = (2147483650 :: int)"
  by (simp add: invocationGeometry_def getImageSize_def at_index_def size_t_sub_def
      int_of_int64_def cropGeometry_def cropSize_def int_sub_def int_div_def
      index_tensor_def Let_def in_int_range_def INT_MIN_def INT_MAX_def)

subsection \<open>The shape of the result\<close>

lemma trunc_of_int: "trunc (of_int w) = w"
  by (simp add: trunc_def)

lemma int_of_double_integer:
  "in_int_range w \<Longrightarrow> int_of_double (Finite (of_int w)) = Inr w"
  by (simp add: int_of_double_def trunc_of_int)

lemma in_int_range_nonneg: "0 \<le> a \<Longrightarrow> a \<le> b \<Longrightarrow> b \<le> INT_MAX \<Longrightarrow> in_int_range a"
  by (simp add: in_int_range_def INT_MIN_def INT_MAX_def)

lemma centerCropFunc_in_range:
  assumes p: "parseTensor rt v = Inr t"
      and s: "sizes t = lead @ [H, W]"
      and H: "0 \<le> H" "H \<le> INT_MAX" and W: "0 \<le> W" "W \<le> INT_MAX"
      and c: "cropSize spec (W, H) = (ch, cw)"
      and ch: "0 \<le> ch" "ch \<le> H" and cw: "0 \<le> cw" "cw \<le> W"
  shows "\<exists>r. centerCropFunc spec rt [v] = (Inr (JSObject (length rt)), rt @ [TensorHostObject r])
           \<and> returnedTensor (centerCropFunc spec rt [v]) = Inr r
           \<and> sizes r = lead @ [ch, cw]
           \<and> (\<forall>pre i j. length pre = length lead \<longrightarrow>
                 elem r (pre @ [i, j]) =
                 elem t (pre @ [i + (H - ch) div 2, j + (W - cw) div 2]))"
proof -
  let ?g = "\<lparr>cropHeight = ch, cropWidth = cw,
             cropTop = int_div (H - ch) 2, cropLeft = int_div (W - cw) 2\<rparr>"
  have rH: "in_int_range H" and rW: "in_int_range W"
    using H W by (simp_all add: in_int_range_def INT_MIN_def)
  have sz: "getImageSize t = Inr (W, H)"
    using getImageSize_last_two [OF s] rH rW by (simp add: int_of_int64_id)
  have dH: "in_int_range (H - ch)" and dW: "in_int_range (W - cw)"
    using H W ch cw by (simp_all add: in_int_range_def INT_MIN_def)
  have g: "cropGeometry spec (W, H) = Inr ?g"
    using cropGeometry_defined [OF c] dH dW by simp
  have tp: "cropTop ?g = (H - ch) div 2" and lf: "cropLeft ?g = (W - cw) div 2"
    using ch cw by (simp_all add: int_div_2_nonneg)
  have b1: "0 \<le> cropTop ?g" and b2: "cropTop ?g + cropHeight ?g \<le> H"
    unfolding tp using ch by simp_all
  have b3: "0 \<le> cropLeft ?g" and b4: "cropLeft ?g + cropWidth ?g \<le> W"
    unfolding lf using cw by simp_all
  have b5: "0 \<le> cropHeight ?g" and b6: "0 \<le> cropWidth ?g"
    using ch cw by simp_all
  from narrowToCrop_in_range [OF s b1 b5 b2 b3 b6 b4]
  obtain r where r: "narrowToCrop t ?g = Inr r"
    and rs: "sizes r = lead @ [cropHeight ?g, cropWidth ?g]"
    and re: "\<forall>pre i j. length pre = length lead \<longrightarrow>
               elem r (pre @ [i, j]) = elem t (pre @ [i + cropTop ?g, j + cropLeft ?g])"
    by blast
  have run: "centerCropFunc spec rt [v] = (Inr (JSObject (length rt)), rt @ [TensorHostObject r])"
    by (rule centerCropFunc_returns [OF p sz g r])
  have ret: "returnedTensor (centerCropFunc spec rt [v]) = Inr r"
    unfolding run by (rule returnedTensor_created)
  have rs': "sizes r = lead @ [ch, cw]"
    using rs by simp
  have re': "\<forall>pre i j. length pre = length lead \<longrightarrow>
               elem r (pre @ [i, j]) = elem t (pre @ [i + (H - ch) div 2, j + (W - cw) div 2])"
    using re unfolding tp lf .
  from run ret rs' re' show ?thesis by blast
qed

lemma factory_no_arguments:
  "centerCropFactoryFunc [] = Inr \<lparr>width = - 1, height = - 1\<rparr>"
  by (simp add: centerCropFactoryFunc_def)

lemma cropSize_unset_width:
  "width spec = - 1 \<Longrightarrow> cropSize spec (W, H) = (min W H, min W H)"
  by (simp add: cropSize_def Let_def)

lemma INT_MAX_bound: "7 \<le> INT_MAX" "5 \<le> INT_MAX" "10 \<le> INT_MAX"
  by (simp_all add: INT_MAX_def)

lemma trunc_minus_one: "trunc (- 1) = - 1"
  using trunc_of_int [of "- 1"] by simp

lemma trunc_numeral: "trunc (numeral n) = numeral n"
  using trunc_of_int [of "numeral n"] by simp

lemma factory_two_integers:
  assumes "in_int_range w" and "in_int_range h"
  shows "centerCropFactoryFunc [JSNumber (Finite (of_int w)), JSNumber (Finite (of_int h))] =
           Inr \<lparr>width = w, height = h\<rparr>"
  using assms by (simp add: centerCropFactoryFunc_def asNumber_def int_of_double_integer)

lemma factory_one_integer:
  assumes "in_int_range w"
  shows "centerCropFactoryFunc [JSNumber (Finite (of_int w))] = Inr \<lparr>width = w, height = - 1\<rparr>"
  using assms by (simp add: centerCropFactoryFunc_def asNumber_def int_of_double_integer)

lemma cropSize_explicit:
  "0 \<le> w \<Longrightarrow> 0 \<le> h \<Longrightarrow> cropSize \<lparr>width = w, height = h\<rparr> sz = (h, w)"
  by (simp add: cropSize_def Let_def)

lemma cropSize_width_only:
  "0 \<le> w \<Longrightarrow> cropSize \<lparr>width = w, height = - 1\<rparr> sz = (w, w)"
  by (simp add: cropSize_def Let_def)

text \<open>
  Claim C2, as amended. For a tensor of shape \<open>[..., H, W]\<close> whose last two sizes
  \<open>int\<close> can hold, the callable made with no size argument returns a tensor of shape
  \<open>[..., min H W, min H W]\<close>; the same holds for every captured height as long as the
  captured width is unset, so a given height is ignored.
\<close>

theorem default_crop_is_min_square:
  assumes "parseTensor rt v = Inr t"
      and "sizes t = lead @ [H, W]"
      and "0 \<le> H" and "H \<le> INT_MAX" and "0 \<le> W" and "W \<le> INT_MAX"
      and "width spec = - 1"
  shows "centerCropFactoryFunc [] = Inr \<lparr>width = - 1, height = - 1\<rparr>
         \<and> (\<exists>r. returnedTensor (centerCropFunc spec rt [v]) = Inr r
                \<and> sizes r = lead @ [min H W, min H W])"
proof -
  have c: "cropSize spec (W, H) = (min W H, min W H)"
    using assms(7) by (rule cropSize_unset_width)
  have m: "0 \<le> min W H" "min W H \<le> H" "min W H \<le> W"
    using assms(3,5) by simp_all
  from centerCropFunc_in_range [OF assms(1-6) c m(1) m(2) m(1) m(3)]
  obtain r where "returnedTensor (centerCropFunc spec rt [v]) = Inr r"
    and "sizes r = lead @ [min W H, min W H]"
    by blast
  then have "\<exists>r. returnedTensor (centerCropFunc spec rt [v]) = Inr r
                \<and> sizes r = lead @ [min H W, min H W]"
    by (simp add: min.commute)
  with factory_no_arguments show ?thesis by simp
qed

theorem default_crop_is_min_square_witness:
  "sizes (index_tensor [3, 7, 5]) = [3] @ [7, 5]
   \<and> width \<lparr>width = - 1, height = 2\<rparr> = - 1
   \<and> (\<exists>r. returnedTensor (centerCropFunc \<lparr>width = - 1, height = 2\<rparr>
                [TensorHostObject (index_tensor [3, 7, 5])] [JSObject 0]) = Inr r
          \<and> sizes r = [3, 5, 5])"
proof -
  have s: "sizes (index_tensor [3, 7, 5]) = [3] @ [7, 5]"
    by (simp add: index_tensor_def)
  have w: "width \<lparr>width = - 1, height = 2\<rparr> = - 1"
    by simp
  have b: "(0::int) \<le> 7" "(0::int) \<le> 5" by simp_all
  from default_crop_is_min_square [OF parseTensor_single s b(1) INT_MAX_bound(1) b(2) INT_MAX_bound(2) w] s w
  show ?thesis by simp
qed

text \<open>
  The claim as stated, for every tensor of at least two dimensions, fails for a size that
  \<open>int\<close> cannot hold: the tensor of shape \<open>[0, 4294967299, 5]\<close> (it has no
  elements) is read as an image of height 3 and width 5, and the call without a size
  returns the shape \<open>[0, 3, 3]\<close>, not \<open>[0, 5, 5]\<close>.
\<close>

theorem default_crop_is_min_square_counterexample:
  "centerCropFactoryFunc [] = Inr \<lparr>width = - 1, height = - 1\<rparr>
   \<and> sizes (index_tensor [0, 4294967299, 5]) = [0, 4294967299, 5]
   \<and> min 4294967299 5 = (5 :: int)
   \<and> map_sum id sizes (returnedTensor (centerCropFunc \<lparr>width = - 1, height = - 1\<rparr>
        [TensorHostObject (index_tensor [0, 4294967299, 5])] [JSObject 0])) = Inr [0, 3, 3]"
  by (simp add: factory_no_arguments returnedTensor_centerCropFunc [OF parseTensor_single]
      getImageSize_def at_index_def size_t_sub_def int_of_int64_def
      cropGeometry_def cropSize_def int_sub_def int_div_def narrowToCrop_unfold narrow_def
      ndimension_def index_tensor_def Let_def in_int_range_def INT_MIN_def INT_MAX_def)

text \<open>
  Claim C3, as amended. For a tensor of shape \<open>[..., H, W]\<close> whose last two sizes
  \<open>int\<close> can hold, and integers \<open>0 \<le> height \<le> H\<close> and \<open>0 \<le> width \<le> W\<close>
  given to the factory, the invocation returns a tensor of shape
  \<open>[..., height, width]\<close>.
\<close>

theorem explicit_crop_shape:
  assumes "parseTensor rt v = Inr t"
      and "sizes t = lead @ [H, W]"
      and "0 \<le> H" and "H \<le> INT_MAX" and "0 \<le> W" and "W \<le> INT_MAX"
      and "0 \<le> h" and "h \<le> H" and "0 \<le> w" and "w \<le> W"
  shows "centerCropFactoryFunc [JSNumber (Finite (of_int w)), JSNumber (Finite (of_int h))] =
           Inr \<lparr>width = w, height = h\<rparr>
         \<and> (\<exists>r. returnedTensor (centerCropFunc \<lparr>width = w, height = h\<rparr> rt [v]) = Inr r
                \<and> sizes r = lead @ [h, w])"
proof -
  have rw: "in_int_range w" and rh: "in_int_range h"
    using assms(4,6-10) by (auto intro: in_int_range_nonneg)
  have c: "cropSize \<lparr>width = w, height = h\<rparr> (W, H) = (h, w)"
    using assms(7,9) by (simp add: cropSize_explicit)
  from centerCropFunc_in_range [OF assms(1-6) c assms(7-10)]
  have "\<exists>r. returnedTensor (centerCropFunc \<lparr>width = w, height = h\<rparr> rt [v]) = Inr r
                \<and> sizes r = lead @ [h, w]"
    by blast
  with factory_two_integers [OF rw rh] show ?thesis by simp
qed

theorem explicit_crop_shape_witness:
  "sizes (index_tensor [3, 7, 5]) = [3] @ [7, 5]
   \<and> centerCropFactoryFunc [JSNumber (Finite 4), JSNumber (Finite 6)] =
        Inr \<lparr>width = 4, height = 6\<rparr>
   \<and> (\<exists>r. returnedTensor (centerCropFunc \<lparr>width = 4, height = 6\<rparr>
                [TensorHostObject (index_tensor [3, 7, 5])] [JSObject 0]) = Inr r
          \<and> sizes r = [3, 6, 4])"
proof -
  have s: "sizes (index_tensor [3, 7, 5]) = [3] @ [7, 5]"
    by (simp add: index_tensor_def)
  have b: "(0::int) \<le> 7" "(0::int) \<le> 5" "(0::int) \<le> 6" "(6::int) \<le> 7"
      "(0::int) \<le> 4" "(4::int) \<le> 5"
    by simp_all
  from explicit_crop_shape [OF parseTensor_single s b(1) INT_MAX_bound(1) b(2) INT_MAX_bound(2)
      b(3) b(4) b(5) b(6)] s
  show ?thesis by simp
qed

text \<open>
  The claim as stated, for every explicit width and height, fails: a crop of 6 by 6 of a
  4 by 4 tensor returns no tensor (the range handed to \<open>narrow\<close> is invalid), and the
  width \<open>-1\<close> is the value that stands for an unset width, so that
  \<open>centerCrop(-1, 3)\<close> leaves a 10 by 10 tensor at 10 by 10.
\<close>

theorem explicit_crop_shape_counterexample:
  "centerCropFactoryFunc [JSNumber (Finite 6), JSNumber (Finite 6)] =
     Inr \<lparr>width = 6, height = 6\<rparr>
   \<and> returnedTensor (centerCropFunc \<lparr>width = 6, height = 6\<rparr>
        [TensorHostObject (index_tensor [4, 4])] [JSObject 0]) = Inl InvalidRange
   \<and> centerCropFactoryFunc [JSNumber (Finite (- 1)), JSNumber (Finite 3)] =
        Inr \<lparr>width = - 1, height = 3\<rparr>
   \<and> map_sum id sizes (returnedTensor (centerCropFunc \<lparr>width = - 1, height = 3\<rparr>
        [TensorHostObject (index_tensor [10, 10])] [JSObject 0])) = Inr [10, 10]"
  by (simp add: centerCropFactoryFunc_def asNumber_def int_of_double_def trunc_numeral
      trunc_minus_one in_int_range_def INT_MIN_def INT_MAX_def returnedTensor_def centerCropFunc_unfold
      parseTensor_def at_index_def getImageSize_def size_t_sub_def int_of_int64_def
      cropGeometry_def cropSize_def int_sub_def int_div_def narrowToCrop_unfold narrow_def
      ndimension_def index_tensor_def createFromHostObject_def Let_def)

text \<open>
  Claim C4, as amended. For a tensor of shape \<open>[..., H, W]\<close> whose last two sizes
  \<open>int\<close> can hold, and one integer \<open>width\<close> given to the factory with
  \<open>0 \<le> width \<le> min H W\<close>, the invocation returns a tensor of shape
  \<open>[..., width, width]\<close>: the unset height takes the width.
\<close>

theorem width_only_crop_shape:
  assumes "parseTensor rt v = Inr t"
      and "sizes t = lead @ [H, W]"
      and "0 \<le> H" and "H \<le> INT_MAX" and "0 \<le> W" and "W \<le> INT_MAX"
      and "0 \<le> w" and "w \<le> H" and "w \<le> W"
  shows "centerCropFactoryFunc [JSNumber (Finite (of_int w))] = Inr \<lparr>width = w, height = - 1\<rparr>
         \<and> (\<exists>r. returnedTensor (centerCropFunc \<lparr>width = w, height = - 1\<rparr> rt [v]) = Inr r
                \<and> sizes r = lead @ [w, w])"
proof -
  have rw: "in_int_range w"
    using assms(4,7,8) by (auto intro: in_int_range_nonneg)
  have c: "cropSize \<lparr>width = w, height = - 1\<rparr> (W, H) = (w, w)"
    using assms(7) by (simp add: cropSize_width_only)
  from centerCropFunc_in_range [OF assms(1-6) c assms(7,8) assms(7,9)]
  have "\<exists>r. returnedTensor (centerCropFunc \<lparr>width = w, height = - 1\<rparr> rt [v]) = Inr r
                \<and> sizes r = lead @ [w, w]"
    by blast
  with factory_one_integer [OF rw] show ?thesis by simp
qed

theorem width_only_crop_shape_witness:
  "sizes (index_tensor [3, 7, 5]) = [3] @ [7, 5]
   \<and> centerCropFactoryFunc [JSNumber (Finite 4)] = Inr \<lparr>width = 4, height = - 1\<rparr>
   \<and> (\<exists>r. returnedTensor (centerCropFunc \<lparr>width = 4, height = - 1\<rparr>
                [TensorHostObject (index_tensor [3, 7, 5])] [JSObject 0]) = Inr r
          \<and> sizes r = [3, 4, 4])"
proof -
  have s: "sizes (index_tensor [3, 7, 5]) = [3] @ [7, 5]"
    by (simp add: index_tensor_def)
  have b: "(0::int) \<le> 7" "(0::int) \<le> 5" "(0::int) \<le> 4" "(4::int) \<le> 7" "(4::int) \<le> 5"
    by simp_all
  from width_only_crop_shape [OF parseTensor_single s b(1) INT_MAX_bound(1) b(2) INT_MAX_bound(2)
      b(3) b(4) b(5)] s
  show ?thesis by simp
qed

text \<open>
  The claim as stated, for every tensor and every width, fails: a width of 6 exceeds the
  height of a 4 by 10 tensor and the call returns no tensor, and \<open>centerCrop(-1)\<close> is
  the call without a size, which leaves a 10 by 10 tensor at 10 by 10.
\<close>

theorem width_only_crop_shape_counterexample:
  "centerCropFactoryFunc [JSNumber (Finite 6)] = Inr \<lparr>width = 6, height = - 1\<rparr>
   \<and> returnedTensor (centerCropFunc \<lparr>width = 6, height = - 1\<rparr>
        [TensorHostObject (index_tensor [4, 10])] [JSObject 0]) = Inl InvalidRange
   \<and> centerCropFactoryFunc [JSNumber (Finite (- 1))] = Inr \<lparr>width = - 1, height = - 1\<rparr>
   \<and> map_sum id sizes (returnedTensor (centerCropFunc \<lparr>width = - 1, height = - 1\<rparr>
        [TensorHostObject (index_tensor [10, 10])] [JSObject 0])) = Inr [10, 10]"
  by (simp add: centerCropFactoryFunc_def asNumber_def int_of_double_def trunc_numeral
      trunc_minus_one in_int_range_def INT_MIN_def INT_MAX_def returnedTensor_def centerCropFunc_unfold
      parseTensor_def at_index_def getImageSize_def size_t_sub_def int_of_int64_def
      cropGeometry_def cropSize_def int_sub_def int_div_def narrowToCrop_unfold narrow_def
      ndimension_def index_tensor_def createFromHostObject_def Let_def)

subsection \<open>The leading dimensions and the input tensor\<close>

lemma narrow_sizes:
  "narrow t d s l = Inr r \<Longrightarrow> sizes r = (sizes t)[nat d := l]"
  by (auto simp add: narrow_def split: if_splits)

lemma narrow_bounds:
  "narrow t d s l = Inr r \<Longrightarrow> 0 \<le> d \<and> d < ndimension t"
  by (auto simp add: narrow_def split: if_splits)

lemma narrowToCrop_sizes:
  assumes "narrowToCrop t g = Inr r"
  shows "sizes r = (sizes t)[nat (ndimension t - 2) := cropHeight g,
                             nat (ndimension t - 1) := cropWidth g]
         \<and> 2 \<le> length (sizes t)"
proof -
  from assms obtain t1 where
    n1: "narrow t (ndimension t - 2) (cropTop g) (cropHeight g) = Inr t1" and
    n2: "narrow t1 (ndimension t - 1) (cropLeft g) (cropWidth g) = Inr r"
    by (auto simp add: narrowToCrop_unfold Let_def split: sum.splits)
  have "0 \<le> ndimension t - 2"
    using narrow_bounds [OF n1] by simp
  then have "2 \<le> length (sizes t)"
    by (simp add: ndimension_def)
  with narrow_sizes [OF n1] narrow_sizes [OF n2] show ?thesis by simp
qed

lemma runtime_after_centerCropFunc:
  "\<exists>created. snd (centerCropFunc spec rt args) = rt @ created"
  by (simp add: centerCropFunc_unfold createFromHostObject_def split: sum.splits)

lemma parseTensor_append:
  "parseTensor rt v = Inr t \<Longrightarrow> parseTensor (rt @ created) v = Inr t"
  by (auto simp add: parseTensor_def at_index_def nth_append
      split: jsi_Value.splits option.splits host_object.splits if_splits)

lemma parseTensor_after_centerCropFunc:
  assumes "parseTensor rt v = Inr t"
  shows "parseTensor (snd (centerCropFunc spec rt args)) v = Inr t"
proof -
  obtain created where "snd (centerCropFunc spec rt args) = rt @ created"
    using runtime_after_centerCropFunc by blast
  with parseTensor_append [OF assms] show ?thesis by simp
qed

text \<open>
  Claim C5. For a tensor of more than two dimensions, the tensor an invocation returns
  has as many dimensions as the input and the same size in every dimension but the last
  two; and after the call the argument still refers to the input tensor, its shape and
  elements as before.
\<close>

theorem leading_dimensions_preserved:
  assumes "parseTensor rt v = Inr t"
      and "2 < length (sizes t)"
  shows "parseTensor (snd (centerCropFunc spec rt [v])) v = Inr t
         \<and> (\<forall>r. returnedTensor (centerCropFunc spec rt [v]) = Inr r \<longrightarrow>
               length (sizes r) = length (sizes t)
               \<and> take (length (sizes t) - 2) (sizes r) = take (length (sizes t) - 2) (sizes t)
               \<and> (\<forall>i. i < length (sizes t) - 2 \<longrightarrow> sizes r ! i = sizes t ! i))"
proof (intro conjI allI impI)
  show "parseTensor (snd (centerCropFunc spec rt [v])) v = Inr t"
    by (rule parseTensor_after_centerCropFunc [OF assms(1)])
next
  fix r
  assume "returnedTensor (centerCropFunc spec rt [v]) = Inr r"
  then obtain g where "narrowToCrop t g = Inr r"
    unfolding returnedTensor_centerCropFunc [OF assms(1)]
    by (auto split: sum.splits)
  then have s: "sizes r = (sizes t)[nat (ndimension t - 2) := cropHeight g,
                             nat (ndimension t - 1) := cropWidth g]"
    using narrowToCrop_sizes by blast
  have d: "nat (ndimension t - 2) = length (sizes t) - 2"
      "nat (ndimension t - 1) = length (sizes t) - 1"
    using assms(2) by (simp_all add: ndimension_def)
  show "length (sizes r) = length (sizes t)"
    using s by simp
  show "take (length (sizes t) - 2) (sizes r) = take (length (sizes t) - 2) (sizes t)"
    unfolding s d by simp
  fix i
  assume "i < length (sizes t) - 2"
  then show "sizes r ! i = sizes t ! i"
    unfolding s d by simp
qed

theorem leading_dimensions_preserved_witness:
  "2 < length (sizes (index_tensor [3, 7, 5]))
   \<and> map_sum id sizes (returnedTensor (centerCropFunc \<lparr>width = 4, height = 6\<rparr>
        [TensorHostObject (index_tensor [3, 7, 5])] [JSObject 0])) = Inr [3, 6, 4]
   \<and> map_sum id sizes (parseTensor (snd (centerCropFunc \<lparr>width = 4, height = 6\<rparr>
        [TensorHostObject (index_tensor [3, 7, 5])] [JSObject 0])) (JSObject 0)) = Inr [3, 7, 5]"
proof -
  have l: "2 < length (sizes (index_tensor [3, 7, 5]))"
    by (simp add: index_tensor_def)
  have r: "map_sum id sizes (returnedTensor (centerCropFunc \<lparr>width = 4, height = 6\<rparr>
        [TensorHostObject (index_tensor [3, 7, 5])] [JSObject 0])) = Inr [3, 6, 4]"
    by (simp add: returnedTensor_centerCropFunc [OF parseTensor_single]
        getImageSize_def at_index_def size_t_sub_def int_of_int64_def
        cropGeometry_def cropSize_def int_sub_def int_div_def narrowToCrop_unfold narrow_def
        ndimension_def index_tensor_def Let_def in_int_range_def INT_MIN_def INT_MAX_def)
  from leading_dimensions_preserved [OF parseTensor_single l, of "\<lparr>width = 4, height = 6\<rparr>"] l r
  show ?thesis by (simp add: index_tensor_def)
qed

subsection \<open>The errors of an invocation\<close>

lemma centerCropFunc_arity:
  "length args \<noteq> 1 \<Longrightarrow>
     centerCropFunc spec rt args = (Inl (JSError ''Tensor required as argument''), rt)"
  by (simp add: centerCropFunc_unfold)

lemma parseTensor_not_tensor:
  assumes "\<forall>a t. v = JSObject a \<longrightarrow> at_index rt a \<noteq> Some (TensorHostObject t)"
  shows "parseTensor rt v = Inl TensorTypeError"
  using assms
  by (auto simp add: parseTensor_def split: jsi_Value.splits option.splits host_object.splits)

lemma narrow_failure: "narrow t d s l = Inl e \<Longrightarrow> e = InvalidRange"
  by (auto simp add: narrow_def split: if_splits)

lemma narrowToCrop_failure: "narrowToCrop t g = Inl e \<Longrightarrow> e = InvalidRange"
  by (auto simp add: narrowToCrop_unfold Let_def split: sum.splits dest: narrow_failure)

lemma getImageSize_failure: "getImageSize t = Inl e \<Longrightarrow> e = UndefinedBehaviour"
  by (auto simp add: getImageSize_def Let_def split: option.splits)

lemma cropGeometry_failure: "cropGeometry spec sz = Inl e \<Longrightarrow> e = UndefinedBehaviour"
  by (auto simp add: cropGeometry_def int_sub_def split: prod.splits sum.splits if_splits)

lemma centerCropFunc_tensor_outcome:
  assumes "parseTensor rt v = Inr t"
  shows "fst (centerCropFunc spec rt [v]) = Inl UndefinedBehaviour
         \<or> fst (centerCropFunc spec rt [v]) = Inl InvalidRange
         \<or> fst (centerCropFunc spec rt [v]) = Inr (JSObject (length rt))"
  using assms
  by (auto simp add: centerCropFunc_unfold createFromHostObject_def split: sum.splits
      dest: narrowToCrop_failure getImageSize_failure cropGeometry_failure)

text \<open>
  Claim C6. An invocation with an argument count other than one raises the error
  "Tensor required as argument"; an invocation with one argument that is not a tensor
  raises the type error of \<open>parseTensor\<close>; both leave the runtime as it was. An
  invocation with one tensor argument raises neither of the two.
\<close>

theorem invocation_argument_errors:
  "(length args \<noteq> 1 \<longrightarrow>
      centerCropFunc spec rt args = (Inl (JSError ''Tensor required as argument''), rt))
   \<and> ((\<forall>a t. v = JSObject a \<longrightarrow> at_index rt a \<noteq> Some (TensorHostObject t)) \<longrightarrow>
        centerCropFunc spec rt [v] = (Inl TensorTypeError, rt))
   \<and> (v = JSObject a \<and> at_index rt a = Some (TensorHostObject t) \<longrightarrow>
        (\<forall>m. fst (centerCropFunc spec rt [v]) \<noteq> Inl (JSError m))
        \<and> fst (centerCropFunc spec rt [v]) \<noteq> Inl TensorTypeError)"
proof (intro conjI impI)
  assume "length args \<noteq> 1"
  then show "centerCropFunc spec rt args = (Inl (JSError ''Tensor required as argument''), rt)"
    by (rule centerCropFunc_arity)
next
  assume "\<forall>a t. v = JSObject a \<longrightarrow> at_index rt a \<noteq> Some (TensorHostObject t)"
  then have "parseTensor rt v = Inl TensorTypeError"
    by (rule parseTensor_not_tensor)
  then show "centerCropFunc spec rt [v] = (Inl TensorTypeError, rt)"
    by (simp add: centerCropFunc_unfold)
next
  assume "v = JSObject a \<and> at_index rt a = Some (TensorHostObject t)"
  then have p: "parseTensor rt v = Inr t"
    by (simp add: parseTensor_def)
  from centerCropFunc_tensor_outcome [OF p, of spec]
  show "\<forall>m. fst (centerCropFunc spec rt [v]) \<noteq> Inl (JSError m)"
    by auto
  from centerCropFunc_tensor_outcome [OF p, of spec]
  show "fst (centerCropFunc spec rt [v]) \<noteq> Inl TensorTypeError"
    by auto
qed

theorem invocation_argument_errors_witness:
  "centerCropFunc \<lparr>width = 4, height = 4\<rparr> [TensorHostObject (index_tensor [9, 9])] [] =
     (Inl (JSError ''Tensor required as argument''), [TensorHostObject (index_tensor [9, 9])])
   \<and> centerCropFunc \<lparr>width = 4, height = 4\<rparr> [TensorHostObject (index_tensor [9, 9])]
        [JSObject 0, JSObject 0] =
     (Inl (JSError ''Tensor required as argument''), [TensorHostObject (index_tensor [9, 9])])
   \<and> centerCropFunc \<lparr>width = 4, height = 4\<rparr> [TensorHostObject (index_tensor [9, 9])]
        [JSNumber (Finite 9)] =
     (Inl TensorTypeError, [TensorHostObject (index_tensor [9, 9])])
   \<and> centerCropFunc \<lparr>width = 4, height = 4\<rparr> [TensorHostObject (index_tensor [9, 9]), OtherObject]
        [JSObject 1] =
     (Inl TensorTypeError, [TensorHostObject (index_tensor [9, 9]), OtherObject])
   \<and> fst (centerCropFunc \<lparr>width = 4, height = 4\<rparr> [TensorHostObject (index_tensor [9, 9])]
        [JSObject 0]) \<noteq> Inl (JSError ''Tensor required as argument'')
   \<and> fst (centerCropFunc \<lparr>width = 4, height = 4\<rparr> [TensorHostObject (index_tensor [9, 9])]
        [JSObject 0]) \<noteq> Inl TensorTypeError"
proof -
  let ?spec = "\<lparr>width = 4, height = 4\<rparr>"
  let ?rt = "[TensorHostObject (index_tensor [9, 9])]"
  have a0: "length ([] :: jsi_Value list) \<noteq> 1" by simp
  have a2: "length [JSObject 0, JSObject 0] \<noteq> 1" by simp
  have n1: "\<forall>a t. JSNumber (Finite 9) = JSObject a \<longrightarrow> at_index ?rt a \<noteq> Some (TensorHostObject t)"
    by simp
  have n2: "\<forall>a t. JSObject 1 = JSObject a \<longrightarrow>
      at_index [TensorHostObject (index_tensor [9, 9]), OtherObject] a \<noteq> Some (TensorHostObject t)"
    by (simp add: at_index_def)
  have t1: "JSObject 0 = JSObject 0 \<and> at_index ?rt 0 = Some (TensorHostObject (index_tensor [9, 9]))"
    by (simp add: at_index_def)
  note th = invocation_argument_errors
  from th [of "[]" ?spec ?rt] a0
  have c1: "centerCropFunc ?spec ?rt [] = (Inl (JSError ''Tensor required as argument''), ?rt)"
    by blast
  from th [of "[JSObject 0, JSObject 0]" ?spec ?rt] a2
  have c2: "centerCropFunc ?spec ?rt [JSObject 0, JSObject 0] =
      (Inl (JSError ''Tensor required as argument''), ?rt)"
    by blast
  from th [of _ ?spec ?rt "JSNumber (Finite 9)"] n1
  have c3: "centerCropFunc ?spec ?rt [JSNumber (Finite 9)] = (Inl TensorTypeError, ?rt)"
    by blast
  from th [of _ ?spec "[TensorHostObject (index_tensor [9, 9]), OtherObject]" "JSObject 1"] n2
  have c4: "centerCropFunc ?spec [TensorHostObject (index_tensor [9, 9]), OtherObject] [JSObject 1] =
      (Inl TensorTypeError, [TensorHostObject (index_tensor [9, 9]), OtherObject])"
    by blast
  from th [of _ ?spec ?rt "JSObject 0" 0 "index_tensor [9, 9]"] t1
  have c5: "fst (centerCropFunc ?spec ?rt [JSObject 0]) \<noteq> Inl (JSError ''Tensor required as argument'')"
    and c6: "fst (centerCropFunc ?spec ?rt [JSObject 0]) \<noteq> Inl TensorTypeError"
    by blast+
  from c1 c2 c3 c4 c5 c6 show ?thesis by blast
qed

subsection \<open>A crop larger than the image\<close>

lemma centerCropFuncWith_narrows:
  assumes "parseTensor rt v = Inr t" and "getImageSize t = Inr sz"
      and "cropGeometry spec sz =
             Inr \<lparr>cropHeight = ch, cropWidth = cw, cropTop = tp, cropLeft = lf\<rparr>"
  shows "centerCropFuncWith slice spec rt [v] =
           (case slice t (ndimension t - 2) tp ch of
              Inl e \<Rightarrow> (Inl e, rt)
            | Inr t1 \<Rightarrow>
                (case slice t1 (ndimension t - 1) lf cw of
                   Inl e \<Rightarrow> (Inl e, rt)
                 | Inr c \<Rightarrow> (Inr (JSObject (length rt)), rt @ [TensorHostObject c])))"
  using assms
  by (simp add: centerCropFuncWith_def narrowToCropWith_def createFromHostObject_def Let_def
      split: sum.splits)

text \<open>
  Claim C7. When the resolved crop height exceeds the image height by two or more, the
  top offset is negative (an excess of one gives the offset 0, the division rounding
  towards zero), and the invocation hands the input tensor with that offset to the
  slicing primitive: whatever the primitive is, the outcome of the invocation is the
  outcome of the primitive's two calls, the first with the negative offset. The binding
  checks no bound and pads nothing: with a primitive that accepts every range the call
  returns a tensor, and with \<open>narrow\<close> it fails where \<open>narrow\<close> fails. Such an input
  exists: a crop of 6 by 6 of a 4 by 4 tensor has the top offset \<open>-1\<close>.
\<close>

theorem oversized_crop_is_not_validated:
  assumes "parseTensor rt v = Inr t"
      and "sizes t = lead @ [H, W]"
      and "0 \<le> H" and "H \<le> INT_MAX" and "0 \<le> W" and "W \<le> INT_MAX"
      and "cropSize spec (W, H) = (ch, cw)"
      and "H + 2 \<le> ch" and "ch \<le> INT_MAX" and "in_int_range (W - cw)"
  shows "cropGeometry spec (W, H) =
           Inr \<lparr>cropHeight = ch, cropWidth = cw,
                cropTop = - ((ch - H) div 2), cropLeft = int_div (W - cw) 2\<rparr>
         \<and> - ((ch - H) div 2) < 0
         \<and> (\<forall>slice. centerCropFuncWith slice spec rt [v] =
                (case slice t (ndimension t - 2) (- ((ch - H) div 2)) ch of
                   Inl e \<Rightarrow> (Inl e, rt)
                 | Inr t1 \<Rightarrow>
                     (case slice t1 (ndimension t - 1) (int_div (W - cw) 2) cw of
                        Inl e \<Rightarrow> (Inl e, rt)
                      | Inr c \<Rightarrow> (Inr (JSObject (length rt)), rt @ [TensorHostObject c]))))
         \<and> centerCropFunc spec rt [v] = centerCropFuncWith narrow spec rt [v]"
proof -
  let ?g = "\<lparr>cropHeight = ch, cropWidth = cw,
             cropTop = - ((ch - H) div 2), cropLeft = int_div (W - cw) 2\<rparr>"
  have rH: "in_int_range H" and rW: "in_int_range W"
    using assms(3-6) by (simp_all add: in_int_range_def INT_MIN_def)
  have sz: "getImageSize t = Inr (W, H)"
    using getImageSize_last_two [OF assms(2)] rH rW by (simp add: int_of_int64_id)
  have dH: "in_int_range (H - ch)"
    using assms(3,4,8,9) by (simp add: in_int_range_def INT_MIN_def INT_MAX_def)
  have tp: "int_div (H - ch) 2 = - ((ch - H) div 2)"
    using assms(8) by (simp add: int_div_2_neg)
  have g: "cropGeometry spec (W, H) = Inr ?g"
    using cropGeometry_defined [OF assms(7)] dH assms(10) tp by simp
  have neg: "- ((ch - H) div 2) < 0"
    using assms(8) by simp
  have run: "\<forall>slice. centerCropFuncWith slice spec rt [v] =
                (case slice t (ndimension t - 2) (- ((ch - H) div 2)) ch of
                   Inl e \<Rightarrow> (Inl e, rt)
                 | Inr t1 \<Rightarrow>
                     (case slice t1 (ndimension t - 1) (int_div (W - cw) 2) cw of
                        Inl e \<Rightarrow> (Inl e, rt)
                      | Inr c \<Rightarrow> (Inr (JSObject (length rt)), rt @ [TensorHostObject c])))"
    using centerCropFuncWith_narrows [OF assms(1) sz g] by blast
  have inst: "centerCropFunc spec rt [v] = centerCropFuncWith narrow spec rt [v]"
    by (simp add: centerCropFunc_def)
  from g neg run inst show ?thesis by blast
qed

theorem oversized_crop_is_not_validated_witness:
  "sizes (index_tensor [4, 4]) = [] @ [4, 4]
   \<and> cropSize \<lparr>width = 6, height = 6\<rparr> (4, 4) = (6, 6)
   \<and> cropGeometry \<lparr>width = 6, height = 6\<rparr> (4, 4) =
        Inr \<lparr>cropHeight = 6, cropWidth = 6, cropTop = - 1, cropLeft = - 1\<rparr>
   \<and> map_sum id sizes (returnedTensor (centerCropFuncWith unchecked_slice \<lparr>width = 6, height = 6\<rparr>
        [TensorHostObject (index_tensor [4, 4])] [JSObject 0])) = Inr [6, 6]
   \<and> map_sum id (\<lambda>r. elem r [0, 0]) (returnedTensor (centerCropFuncWith unchecked_slice
        \<lparr>width = 6, height = 6\<rparr> [TensorHostObject (index_tensor [4, 4])] [JSObject 0])) =
        Inr [- 1, - 1]
   \<and> centerCropFunc \<lparr>width = 6, height = 6\<rparr>
        [TensorHostObject (index_tensor [4, 4])] [JSObject 0] =
      (Inl InvalidRange, [TensorHostObject (index_tensor [4, 4])])"
proof -
  let ?t = "index_tensor [4, 4]"
  let ?spec = "\<lparr>width = 6, height = 6\<rparr>"
  have s: "sizes ?t = [] @ [4, 4]"
    by (simp add: index_tensor_def)
  have c: "cropSize ?spec (4, 4) = (6, 6)"
    by (simp add: cropSize_def)
  have b: "(0::int) \<le> 4" "4 \<le> INT_MAX" "(4::int) + 2 \<le> 6" "6 \<le> INT_MAX"
      "in_int_range (4 - 6)"
    by (simp_all add: in_int_range_def INT_MIN_def INT_MAX_def)
  have d: "ndimension ?t - 2 = 0" "ndimension ?t - 1 = 1"
    by (simp_all add: ndimension_def index_tensor_def)
  have lf: "int_div (4 - 6) 2 = - 1" "(6 - 4) div 2 = (1::int)"
    by (simp_all add: int_div_def)
  note th = oversized_crop_is_not_validated
      [OF parseTensor_single s b(1) b(2) b(1) b(2) c b(3) b(4) b(5)]
  from th have g: "cropGeometry ?spec (4, 4) =
        Inr \<lparr>cropHeight = 6, cropWidth = 6, cropTop = - 1, cropLeft = - 1\<rparr>"
    unfolding lf by blast
  from th have run: "\<And>slice. centerCropFuncWith slice ?spec [TensorHostObject ?t] [JSObject 0] =
                (case slice ?t 0 (- 1) 6 of
                   Inl e \<Rightarrow> (Inl e, [TensorHostObject ?t])
                 | Inr t1 \<Rightarrow>
                     (case slice t1 1 (- 1) 6 of
                        Inl e \<Rightarrow> (Inl e, [TensorHostObject ?t])
                      | Inr c \<Rightarrow> (Inr (JSObject (length [TensorHostObject ?t])),
                          [TensorHostObject ?t] @ [TensorHostObject c])))"
    unfolding d lf by simp
  have u: "map_sum id sizes (returnedTensor (centerCropFuncWith unchecked_slice ?spec
        [TensorHostObject ?t] [JSObject 0])) = Inr [6, 6]"
    unfolding run [of unchecked_slice]
    by (simp add: unchecked_slice_def returnedTensor_def parseTensor_def at_index_def
        index_tensor_def)
  have e: "map_sum id (\<lambda>r. elem r [0, 0]) (returnedTensor (centerCropFuncWith unchecked_slice
        ?spec [TensorHostObject ?t] [JSObject 0])) = Inr [- 1, - 1]"
    unfolding run [of unchecked_slice]
    by (simp add: unchecked_slice_def returnedTensor_def parseTensor_def at_index_def
        index_tensor_def)
  from th have "centerCropFunc ?spec [TensorHostObject ?t] [JSObject 0] =
      centerCropFuncWith narrow ?spec [TensorHostObject ?t] [JSObject 0]"
    by blast
  then have n: "centerCropFunc ?spec [TensorHostObject ?t] [JSObject 0] =
      (Inl InvalidRange, [TensorHostObject ?t])"
    unfolding run [of narrow] by (simp add: narrow_def)
  from s c g u e n show ?thesis by blast
qed

subsection \<open>The captured crop specification\<close>

lemma narrow_shape:
  "map_sum id sizes (narrow t d s l) =
     (if 0 \<le> d \<and> d < int (length (sizes t)) \<and> 0 \<le> s \<and> 0 \<le> l \<and> s + l \<le> sizes t ! nat d
      then Inr ((sizes t)[nat d := l]) else Inl InvalidRange)"
  by (simp add: narrow_def ndimension_def)

lemma narrow_shape_cong:
  assumes "sizes t1 = sizes t2"
  shows "map_sum id sizes (narrow t1 d s l) = map_sum id sizes (narrow t2 d s l)"
  unfolding narrow_shape assms ..

lemma narrowToCrop_shape_cong:
  assumes "sizes t1 = sizes t2"
  shows "map_sum id sizes (narrowToCrop t1 g) = map_sum id sizes (narrowToCrop t2 g)"
proof -
  let ?n1 = "narrow t1 (ndimension t1 - 2) (cropTop g) (cropHeight g)"
  let ?n2 = "narrow t2 (ndimension t2 - 2) (cropTop g) (cropHeight g)"
  have d: "ndimension t1 = ndimension t2"
    using assms by (simp add: ndimension_def)
  have first: "map_sum id sizes ?n1 = map_sum id sizes ?n2"
    unfolding d by (rule narrow_shape_cong [OF assms])
  show ?thesis
  proof (cases ?n1)
    case (Inl e)
    with first have "?n2 = Inl e"
      by (cases ?n2) simp_all
    with Inl show ?thesis
      by (simp add: narrowToCrop_unfold Let_def)
  next
    case (Inr u1)
    with first obtain u2 where u2: "?n2 = Inr u2" and su: "sizes u1 = sizes u2"
      by (cases ?n2) simp_all
    from Inr u2 narrow_shape_cong [OF su] show ?thesis
      by (simp add: narrowToCrop_unfold Let_def d)
  qed
qed

lemma getImageSize_cong:
  "sizes t1 = sizes t2 \<Longrightarrow> getImageSize t1 = getImageSize t2"
  by (simp add: getImageSize_def cong: option.case_cong)

lemma returnedTensor_by_geometry:
  assumes "parseTensor rt v = Inr t"
  shows "returnedTensor (centerCropFunc spec rt [v]) =
           (case invocationGeometry spec t of
              Inl e \<Rightarrow> Inl e
            | Inr g \<Rightarrow> narrowToCrop t g)"
  unfolding returnedTensor_centerCropFunc [OF assms] invocationGeometry_def
  by (simp split: sum.splits)

lemma returned_shape_cong:
  assumes "parseTensor rt1 v1 = Inr t1" and "parseTensor rt2 v2 = Inr t2"
      and "sizes t1 = sizes t2"
  shows "map_sum id sizes (returnedTensor (centerCropFunc spec rt1 [v1])) =
         map_sum id sizes (returnedTensor (centerCropFunc spec rt2 [v2]))"
  unfolding returnedTensor_centerCropFunc [OF assms(1)] returnedTensor_centerCropFunc [OF assms(2)]
    getImageSize_cong [OF assms(3)]
  using narrowToCrop_shape_cong [OF assms(3)]
  by (simp split: sum.splits)

lemma example_crop_shape:
  "map_sum id sizes (returnedTensor (centerCropFunc \<lparr>width = 4, height = 6\<rparr>
        [TensorHostObject (index_tensor [3, 7, 5])] [JSObject 0])) = Inr [3, 6, 4]"
  by (simp add: returnedTensor_centerCropFunc [OF parseTensor_single]
      getImageSize_def at_index_def size_t_sub_def int_of_int64_def
      cropGeometry_def cropSize_def int_sub_def int_div_def narrowToCrop_unfold narrow_def
      ndimension_def index_tensor_def Let_def in_int_range_def INT_MIN_def INT_MAX_def)

lemma getImageSize_long:
  assumes "2 \<le> length (sizes t)"
  shows "getImageSize t =
           Inr (int_of_int64 (last (sizes t)), int_of_int64 (sizes t ! (length (sizes t) - 2)))"
proof -
  from assms have ne: "sizes t \<noteq> []" by auto
  have a1: "at_index (sizes t) (size_t_sub (length (sizes t)) 1) = Some (last (sizes t))"
    using assms ne by (simp add: size_t_sub_def at_index_def last_conv_nth)
  have a2: "at_index (sizes t) (size_t_sub (length (sizes t)) 2) =
            Some (sizes t ! (length (sizes t) - 2))"
    using assms by (simp add: size_t_sub_def at_index_def)
  show ?thesis
    unfolding getImageSize_def Let_def a1 a2 by simp
qed

lemma getImageSize_defined:
  assumes "getImageSize t = Inr sz"
  shows "2 \<le> length (sizes t)
         \<and> sz = (int_of_int64 (last (sizes t)), int_of_int64 (sizes t ! (length (sizes t) - 2)))"
proof -
  have l: "2 \<le> length (sizes t)"
  proof (rule ccontr)
    assume "\<not> 2 \<le> length (sizes t)"
    then have "length (sizes t) < 2" by simp
    from getImageSize_short [OF this] assms show False by simp
  qed
  with getImageSize_long [OF l] assms show ?thesis by simp
qed

lemma cropGeometry_resolved:
  assumes "cropGeometry spec (iW, iH) = Inr g"
  shows "cropHeight g = (if width spec = - 1 then min iW iH
                         else if height spec = - 1 then width spec else height spec)
         \<and> cropWidth g = (if width spec = - 1 then min iW iH else width spec)
         \<and> cropTop g = (if cropHeight g \<le> iH then (iH - cropHeight g) div 2
                         else - ((cropHeight g - iH) div 2))
         \<and> cropLeft g = (if cropWidth g \<le> iW then (iW - cropWidth g) div 2
                          else - ((cropWidth g - iW) div 2))"
proof -
  obtain ch cw where c: "cropSize spec (iW, iH) = (ch, cw)"
    by (cases "cropSize spec (iW, iH)") blast
  have ch: "ch = (if width spec = - 1 then min iW iH
                  else if height spec = - 1 then width spec else height spec)"
    and cw: "cw = (if width spec = - 1 then min iW iH else width spec)"
    using c by (simp_all add: cropSize_def Let_def split: if_splits)
  from assms c have g: "g = \<lparr>cropHeight = ch, cropWidth = cw,
      cropTop = int_div (iH - ch) 2, cropLeft = int_div (iW - cw) 2\<rparr>"
    by (simp add: cropGeometry_def int_sub_def split: if_splits)
  have tp: "int_div (iH - ch) 2 = (if ch \<le> iH then (iH - ch) div 2 else - ((ch - iH) div 2))"
    and lf: "int_div (iW - cw) 2 = (if cw \<le> iW then (iW - cw) div 2 else - ((cw - iW) div 2))"
    by (simp_all add: int_div_def)
  show ?thesis
    unfolding g using ch cw tp lf by simp
qed

lemma asNumber_int:
  assumes "(case asNumber a of Inl e \<Rightarrow> Inl e | Inr d \<Rightarrow> int_of_double d) = Inr w"
  shows "\<exists>x. a = JSNumber (Finite x) \<and> w = trunc x"
proof -
  from assms obtain d where a: "a = JSNumber d"
    by (cases a) (simp_all add: asNumber_def)
  with assms have "int_of_double d = Inr w"
    by (simp add: asNumber_def)
  then obtain x where "d = Finite x" and "w = trunc x"
    by (cases d) (auto simp add: int_of_double_def split: if_splits)
  with a show ?thesis by simp
qed

lemma factory_captures:
  assumes "centerCropFactoryFunc fargs = Inr spec"
  shows "(fargs = [] \<longrightarrow> width spec = - 1)
         \<and> (fargs \<noteq> [] \<longrightarrow> (\<exists>x. fargs ! 0 = JSNumber (Finite x) \<and> width spec = trunc x))
         \<and> (length fargs < 2 \<longrightarrow> height spec = - 1)
         \<and> (2 \<le> length fargs \<longrightarrow> (\<exists>y. fargs ! 1 = JSNumber (Finite y) \<and> height spec = trunc y))"
proof -
  let ?w = "if length fargs > 0
            then (case asNumber (fargs ! 0) of Inl e \<Rightarrow> Inl e | Inr d \<Rightarrow> int_of_double d)
            else Inr (- 1)"
  let ?h = "if length fargs > 1
            then (case asNumber (fargs ! 1) of Inl e \<Rightarrow> Inl e | Inr d \<Rightarrow> int_of_double d)
            else Inr (- 1)"
  from assms obtain w where w: "?w = Inr w"
    unfolding centerCropFactoryFunc_def Let_def by (cases ?w) simp_all
  from assms w obtain h where h: "?h = Inr h"
    unfolding centerCropFactoryFunc_def Let_def by (cases ?h) simp_all
  from assms w h have spec: "spec = \<lparr>width = w, height = h\<rparr>"
    unfolding centerCropFactoryFunc_def Let_def by simp
  have c1: "fargs = [] \<longrightarrow> width spec = - 1"
    using w spec by auto
  have c2: "fargs \<noteq> [] \<longrightarrow> (\<exists>x. fargs ! 0 = JSNumber (Finite x) \<and> width spec = trunc x)"
  proof
    assume "fargs \<noteq> []"
    with w have "(case asNumber (fargs ! 0) of Inl e \<Rightarrow> Inl e | Inr d \<Rightarrow> int_of_double d) = Inr w"
      by simp
    from asNumber_int [OF this] spec
    show "\<exists>x. fargs ! 0 = JSNumber (Finite x) \<and> width spec = trunc x" by simp
  qed
  have c3: "length fargs < 2 \<longrightarrow> height spec = - 1"
  proof
    assume "length fargs < 2"
    then have "\<not> length fargs > 1" by simp
    with h spec show "height spec = - 1" by simp
  qed
  have c4: "2 \<le> length fargs \<longrightarrow> (\<exists>y. fargs ! 1 = JSNumber (Finite y) \<and> height spec = trunc y)"
  proof
    assume "2 \<le> length fargs"
    then have "length fargs > 1" by simp
    with h have "(case asNumber (fargs ! 1) of Inl e \<Rightarrow> Inl e | Inr d \<Rightarrow> int_of_double d) = Inr h"
      by simp
    from asNumber_int [OF this] spec
    show "\<exists>y. fargs ! 1 = JSNumber (Finite y) \<and> height spec = trunc y" by simp
  qed
  from c1 c2 c3 c4 show ?thesis by blast
qed

lemma invocationGeometry_resolved:
  assumes "invocationGeometry spec t = Inr g"
  shows "2 \<le> length (sizes t)
         \<and> cropGeometry spec (int_of_int64 (last (sizes t)),
                              int_of_int64 (sizes t ! (length (sizes t) - 2))) = Inr g"
proof -
  from assms obtain sz where sz: "getImageSize t = Inr sz" and g: "cropGeometry spec sz = Inr g"
    by (auto simp add: invocationGeometry_def split: sum.splits)
  from getImageSize_defined [OF sz] g show ?thesis by simp
qed

lemma centerCropFunc_by_geometry:
  assumes "parseTensor rt v = Inr t" and "invocationGeometry spec t = Inr g"
  shows "centerCropFunc spec rt [v] =
           (case narrowToCrop t g of
              Inl e \<Rightarrow> (Inl e, rt)
            | Inr c \<Rightarrow> (Inr (JSObject (length rt)), rt @ [TensorHostObject c]))"
proof -
  from assms(2) obtain sz where sz: "getImageSize t = Inr sz" and g: "cropGeometry spec sz = Inr g"
    by (auto simp add: invocationGeometry_def split: sum.splits)
  show ?thesis
    by (rule centerCropFunc_narrows [OF assms(1) sz g])
qed

text \<open>
  Claim C8. The factory captures the width and the height as the values of its
  arguments converted to \<open>int\<close> (or \<open>-1\<close> for an argument that is not given); the
  callable is the invocation applied to these values, which it only reads. Whenever an
  invocation of the callable resolves a geometry for a tensor, an invocation on every
  tensor of equal shape, in any state of the runtime, resolves the same geometry, which is
  the one the captured values and the image size give: the crop size by the rules of the
  unset width and height, the offsets by the division of C. Both invocations narrow with
  it and have the same outcome up to the elements: the same failure or a tensor of the
  same shape. In particular a second invocation on the same argument, in the runtime the
  first one left, returns the shape the first one returned.
\<close>

theorem invocation_is_deterministic:
  assumes "centerCropFactoryFunc fargs = Inr spec"
      and "parseTensor rt1 v1 = Inr t1" and "parseTensor rt2 v2 = Inr t2"
      and "sizes t1 = sizes t2"
  shows "(fargs = [] \<longrightarrow> width spec = - 1)
         \<and> (fargs \<noteq> [] \<longrightarrow> (\<exists>x. fargs ! 0 = JSNumber (Finite x) \<and> width spec = trunc x))
         \<and> (length fargs < 2 \<longrightarrow> height spec = - 1)
         \<and> (2 \<le> length fargs \<longrightarrow> (\<exists>y. fargs ! 1 = JSNumber (Finite y) \<and> height spec = trunc y))
         \<and> (\<forall>g iW iH.
               invocationGeometry spec t1 = Inr g
               \<and> iW = int_of_int64 (last (sizes t1))
               \<and> iH = int_of_int64 (sizes t1 ! (length (sizes t1) - 2)) \<longrightarrow>
               invocationGeometry spec t2 = Inr g
               \<and> cropHeight g = (if width spec = - 1 then min iW iH
                                  else if height spec = - 1 then width spec else height spec)
               \<and> cropWidth g = (if width spec = - 1 then min iW iH else width spec)
               \<and> cropTop g = (if cropHeight g \<le> iH then (iH - cropHeight g) div 2
                               else - ((cropHeight g - iH) div 2))
               \<and> cropLeft g = (if cropWidth g \<le> iW then (iW - cropWidth g) div 2
                                else - ((cropWidth g - iW) div 2))
               \<and> centerCropFunc spec rt1 [v1] =
                   (case narrowToCrop t1 g of
                      Inl e \<Rightarrow> (Inl e, rt1)
                    | Inr c \<Rightarrow> (Inr (JSObject (length rt1)), rt1 @ [TensorHostObject c]))
               \<and> centerCropFunc spec rt2 [v2] =
                   (case narrowToCrop t2 g of
                      Inl e \<Rightarrow> (Inl e, rt2)
                    | Inr c \<Rightarrow> (Inr (JSObject (length rt2)), rt2 @ [TensorHostObject c]))
               \<and> map_sum id sizes (returnedTensor (centerCropFunc spec rt1 [v1])) =
                   map_sum id sizes (returnedTensor (centerCropFunc spec rt2 [v2]))
               \<and> map_sum id sizes
                     (returnedTensor (centerCropFunc spec (snd (centerCropFunc spec rt1 [v1])) [v1])) =
                   map_sum id sizes (returnedTensor (centerCropFunc spec rt1 [v1])))"
proof -
  have geo: "\<forall>g iW iH.
               invocationGeometry spec t1 = Inr g
               \<and> iW = int_of_int64 (last (sizes t1))
               \<and> iH = int_of_int64 (sizes t1 ! (length (sizes t1) - 2)) \<longrightarrow>
               invocationGeometry spec t2 = Inr g
               \<and> cropHeight g = (if width spec = - 1 then min iW iH
                                  else if height spec = - 1 then width spec else height spec)
               \<and> cropWidth g = (if width spec = - 1 then min iW iH else width spec)
               \<and> cropTop g = (if cropHeight g \<le> iH then (iH - cropHeight g) div 2
                               else - ((cropHeight g - iH) div 2))
               \<and> cropLeft g = (if cropWidth g \<le> iW then (iW - cropWidth g) div 2
                                else - ((cropWidth g - iW) div 2))
               \<and> centerCropFunc spec rt1 [v1] =
                   (case narrowToCrop t1 g of
                      Inl e \<Rightarrow> (Inl e, rt1)
                    | Inr c \<Rightarrow> (Inr (JSObject (length rt1)), rt1 @ [TensorHostObject c]))
               \<and> centerCropFunc spec rt2 [v2] =
                   (case narrowToCrop t2 g of
                      Inl e \<Rightarrow> (Inl e, rt2)
                    | Inr c \<Rightarrow> (Inr (JSObject (length rt2)), rt2 @ [TensorHostObject c]))
               \<and> map_sum id sizes (returnedTensor (centerCropFunc spec rt1 [v1])) =
                   map_sum id sizes (returnedTensor (centerCropFunc spec rt2 [v2]))
               \<and> map_sum id sizes
                     (returnedTensor (centerCropFunc spec (snd (centerCropFunc spec rt1 [v1])) [v1])) =
                   map_sum id sizes (returnedTensor (centerCropFunc spec rt1 [v1]))"
  proof (intro allI impI, elim conjE)
    fix g iW iH
    assume g1: "invocationGeometry spec t1 = Inr g"
      and iW: "iW = int_of_int64 (last (sizes t1))"
      and iH: "iH = int_of_int64 (sizes t1 ! (length (sizes t1) - 2))"
    have g2: "invocationGeometry spec t2 = Inr g"
      using g1 by (simp add: invocationGeometry_def getImageSize_cong [OF assms(4)])
    have cg: "cropGeometry spec (iW, iH) = Inr g"
      using invocationGeometry_resolved [OF g1] iW iH by simp
    note pins = cropGeometry_resolved [OF cg]
    have r1: "centerCropFunc spec rt1 [v1] =
                   (case narrowToCrop t1 g of
                      Inl e \<Rightarrow> (Inl e, rt1)
                    | Inr c \<Rightarrow> (Inr (JSObject (length rt1)), rt1 @ [TensorHostObject c]))"
      by (rule centerCropFunc_by_geometry [OF assms(2) g1])
    have r2: "centerCropFunc spec rt2 [v2] =
                   (case narrowToCrop t2 g of
                      Inl e \<Rightarrow> (Inl e, rt2)
                    | Inr c \<Rightarrow> (Inr (JSObject (length rt2)), rt2 @ [TensorHostObject c]))"
      by (rule centerCropFunc_by_geometry [OF assms(3) g2])
    have sh: "map_sum id sizes (returnedTensor (centerCropFunc spec rt1 [v1])) =
              map_sum id sizes (returnedTensor (centerCropFunc spec rt2 [v2]))"
      by (rule returned_shape_cong [OF assms(2,3,4)])
    have again: "parseTensor (snd (centerCropFunc spec rt1 [v1])) v1 = Inr t1"
      by (rule parseTensor_after_centerCropFunc [OF assms(2)])
    have sq: "map_sum id sizes
                (returnedTensor (centerCropFunc spec (snd (centerCropFunc spec rt1 [v1])) [v1])) =
              map_sum id sizes (returnedTensor (centerCropFunc spec rt1 [v1]))"
      by (rule returned_shape_cong [OF again assms(2) refl])
    from g2 pins r1 r2 sh sq
    show "invocationGeometry spec t2 = Inr g
               \<and> cropHeight g = (if width spec = - 1 then min iW iH
                                  else if height spec = - 1 then width spec else height spec)
               \<and> cropWidth g = (if width spec = - 1 then min iW iH else width spec)
               \<and> cropTop g = (if cropHeight g \<le> iH then (iH - cropHeight g) div 2
                               else - ((cropHeight g - iH) div 2))
               \<and> cropLeft g = (if cropWidth g \<le> iW then (iW - cropWidth g) div 2
                                else - ((cropWidth g - iW) div 2))
               \<and> centerCropFunc spec rt1 [v1] =
                   (case narrowToCrop t1 g of
                      Inl e \<Rightarrow> (Inl e, rt1)
                    | Inr c \<Rightarrow> (Inr (JSObject (length rt1)), rt1 @ [TensorHostObject c]))
               \<and> centerCropFunc spec rt2 [v2] =
                   (case narrowToCrop t2 g of
                      Inl e \<Rightarrow> (Inl e, rt2)
                    | Inr c \<Rightarrow> (Inr (JSObject (length rt2)), rt2 @ [TensorHostObject c]))
               \<and> map_sum id sizes (returnedTensor (centerCropFunc spec rt1 [v1])) =
                   map_sum id sizes (returnedTensor (centerCropFunc spec rt2 [v2]))
               \<and> map_sum id sizes
                     (returnedTensor (centerCropFunc spec (snd (centerCropFunc spec rt1 [v1])) [v1])) =
                   map_sum id sizes (returnedTensor (centerCropFunc spec rt1 [v1]))"
      by blast
  qed
  from factory_captures [OF assms(1)] geo show ?thesis by blast
qed

theorem invocation_is_deterministic_witness:
  "centerCropFactoryFunc [JSNumber (Finite 4), JSNumber (Finite 6)] =
     Inr \<lparr>width = 4, height = 6\<rparr>
   \<and> trunc 4 = 4 \<and> trunc 6 = 6
   \<and> sizes (index_tensor [3, 7, 5]) = sizes ((index_tensor [3, 7, 5])\<lparr>elem := (\<lambda>ix. [])\<rparr>)
   \<and> invocationGeometry \<lparr>width = 4, height = 6\<rparr> (index_tensor [3, 7, 5]) =
        Inr \<lparr>cropHeight = 6, cropWidth = 4, cropTop = 0, cropLeft = 0\<rparr>
   \<and> invocationGeometry \<lparr>width = 4, height = 6\<rparr>
        ((index_tensor [3, 7, 5])\<lparr>elem := (\<lambda>ix. [])\<rparr>) =
        Inr \<lparr>cropHeight = 6, cropWidth = 4, cropTop = 0, cropLeft = 0\<rparr>
   \<and> map_sum id sizes (returnedTensor (centerCropFunc \<lparr>width = 4, height = 6\<rparr>
        [TensorHostObject (index_tensor [3, 7, 5])] [JSObject 0])) = Inr [3, 6, 4]
   \<and> map_sum id sizes (returnedTensor (centerCropFunc \<lparr>width = 4, height = 6\<rparr>
        [OtherObject, TensorHostObject ((index_tensor [3, 7, 5])\<lparr>elem := (\<lambda>ix. [])\<rparr>)]
        [JSObject 1])) = Inr [3, 6, 4]
   \<and> map_sum id sizes (returnedTensor (centerCropFunc \<lparr>width = 4, height = 6\<rparr>
        (snd (centerCropFunc \<lparr>width = 4, height = 6\<rparr>
           [TensorHostObject (index_tensor [3, 7, 5])] [JSObject 0]))
        [JSObject 0])) = Inr [3, 6, 4]"
proof -
  let ?spec = "\<lparr>width = 4, height = 6\<rparr>"
  let ?t1 = "index_tensor [3, 7, 5]"
  let ?t2 = "(index_tensor [3, 7, 5])\<lparr>elem := (\<lambda>ix. [])\<rparr>"
  let ?g = "\<lparr>cropHeight = 6, cropWidth = 4, cropTop = 0, cropLeft = 0\<rparr>"
  have f: "centerCropFactoryFunc [JSNumber (Finite 4), JSNumber (Finite 6)] = Inr ?spec"
    using factory_two_integers [of 4 6]
    by (simp add: in_int_range_def INT_MIN_def INT_MAX_def)
  have p2: "parseTensor [OtherObject, TensorHostObject ?t2] (JSObject 1) = Inr ?t2"
    by (simp add: parseTensor_def at_index_def)
  have s: "sizes ?t1 = sizes ?t2"
    by simp
  have g1: "invocationGeometry ?spec ?t1 = Inr ?g"
    by (simp add: invocationGeometry_def getImageSize_def at_index_def size_t_sub_def
        int_of_int64_def cropGeometry_def cropSize_def int_sub_def int_div_def
        index_tensor_def Let_def in_int_range_def INT_MIN_def INT_MAX_def)
  from invocation_is_deterministic [OF f parseTensor_single p2 s] g1
  have g2: "invocationGeometry ?spec ?t2 = Inr ?g"
    and sh: "map_sum id sizes (returnedTensor (centerCropFunc ?spec
               [TensorHostObject ?t1] [JSObject 0])) =
             map_sum id sizes (returnedTensor (centerCropFunc ?spec
               [OtherObject, TensorHostObject ?t2] [JSObject 1]))"
    and sq: "map_sum id sizes (returnedTensor (centerCropFunc ?spec
               (snd (centerCropFunc ?spec [TensorHostObject ?t1] [JSObject 0])) [JSObject 0])) =
             map_sum id sizes (returnedTensor (centerCropFunc ?spec
               [TensorHostObject ?t1] [JSObject 0]))"
    by blast+
  from invocation_is_deterministic [OF f parseTensor_single p2 s]
  have "\<exists>x. [JSNumber (Finite 4), JSNumber (Finite 6)] ! 0 = JSNumber (Finite x)
          \<and> width ?spec = trunc x"
    and "\<exists>y. [JSNumber (Finite 4), JSNumber (Finite 6)] ! 1 = JSNumber (Finite y)
          \<and> height ?spec = trunc y"
    by simp_all
  then have tr: "trunc 4 = 4" "trunc 6 = 6"
    by simp_all
  from f tr s g1 g2 sh sq example_crop_shape show ?thesis by simp
qed

subsection \<open>The value -1 and the conversion of the arguments\<close>

lemma cropGeometry_unset_width:
  "width spec = - 1 \<Longrightarrow>
     cropGeometry spec sz = cropGeometry \<lparr>width = - 1, height = - 1\<rparr> sz"
  by (simp add: cropGeometry_def cropSize_def Let_def)

lemma centerCropFunc_unset_width:
  assumes "width spec = - 1"
  shows "centerCropFunc spec rt args = centerCropFunc \<lparr>width = - 1, height = - 1\<rparr> rt args"
  unfolding centerCropFunc_unfold cropGeometry_unset_width [OF assms] ..

lemma factory_width:
  "centerCropFactoryFunc (w # rest) = Inr spec \<Longrightarrow>
     \<exists>d. w = JSNumber d \<and> int_of_double d = Inr (width spec)"
  by (auto simp add: centerCropFactoryFunc_def asNumber_def Let_def
      split: jsi_Value.splits sum.splits if_splits)

lemma int_of_double_minus_one: "int_of_double (Finite (- 1)) = Inr (- 1)"
  by (simp add: int_of_double_def trunc_minus_one in_int_range_def INT_MIN_def INT_MAX_def)

lemma trunc_towards_zero:
  "\<bar>real_of_int (trunc x)\<bar> \<le> \<bar>x\<bar> \<and> \<bar>x - real_of_int (trunc x)\<bar> < 1"
  unfolding trunc_def by (simp; linarith)

lemma factory_height:
  "centerCropFactoryFunc [w, h] = Inr spec \<Longrightarrow>
     \<exists>d. h = JSNumber d \<and> int_of_double d = Inr (height spec)"
  by (auto simp add: centerCropFactoryFunc_def asNumber_def Let_def
      split: jsi_Value.splits sum.splits if_splits)

lemma cropSize_unset_height:
  "width spec \<noteq> - 1 \<Longrightarrow> height spec = - 1 \<Longrightarrow> cropSize spec sz = (width spec, width spec)"
  by (simp add: cropSize_def Let_def)

text \<open>
  Claim C9, as amended. The factory stores \<open>-1\<close> for a parameter that is not given, so
  a width of \<open>-1\<close> is a width that is not given: \<open>centerCrop(-1)\<close> captures what
  \<open>centerCrop()\<close> captures, and the callable of \<open>centerCrop(-1, h)\<close> behaves as the one
  of \<open>centerCrop()\<close> for every \<open>h\<close>: the crop size is the smaller of the two image sizes,
  twice, and for image sizes that \<open>int\<close> can hold the result is the \<open>min H W\<close> square.
  \<open>centerCrop(w, -1)\<close> captures what \<open>centerCrop(w)\<close> captures: the height takes the
  width. A finite number whose integer part \<open>int\<close> can hold is captured without its
  fraction (rounded towards zero) and without an error.
\<close>

theorem sentinel_and_truncation:
  "centerCropFactoryFunc [] = Inr \<lparr>width = - 1, height = - 1\<rparr>
   \<and> centerCropFactoryFunc [JSNumber (Finite (- 1))] = centerCropFactoryFunc []
   \<and> (centerCropFactoryFunc [JSNumber (Finite (- 1)), h] = Inr spec \<longrightarrow>
        width spec = - 1
        \<and> centerCropFunc spec rt args = centerCropFunc \<lparr>width = - 1, height = - 1\<rparr> rt args
        \<and> cropSize spec (iW, iH) = (min iW iH, min iW iH)
        \<and> (parseTensor rt v = Inr t \<and> sizes t = lead @ [H, W]
             \<and> 0 \<le> H \<and> H \<le> INT_MAX \<and> 0 \<le> W \<and> W \<le> INT_MAX \<longrightarrow>
             (\<exists>r. returnedTensor (centerCropFunc spec rt [v]) = Inr r
                  \<and> sizes r = lead @ [min H W, min H W])))
   \<and> centerCropFactoryFunc [w, JSNumber (Finite (- 1))] = centerCropFactoryFunc [w]
   \<and> (centerCropFactoryFunc [w, JSNumber (Finite (- 1))] = Inr spec' \<longrightarrow>
        height spec' = - 1
        \<and> (width spec' \<noteq> - 1 \<longrightarrow> cropSize spec' (iW, iH) = (width spec', width spec'))
        \<and> (parseTensor rt v = Inr t \<and> sizes t = lead @ [H, W]
             \<and> 0 \<le> H \<and> H \<le> INT_MAX \<and> 0 \<le> W \<and> W \<le> INT_MAX
             \<and> 0 \<le> width spec' \<and> width spec' \<le> H \<and> width spec' \<le> W \<longrightarrow>
             (\<exists>r. returnedTensor (centerCropFunc spec' rt [v]) = Inr r
                  \<and> sizes r = lead @ [width spec', width spec'])))
   \<and> (in_int_range (trunc x) \<longrightarrow>
        centerCropFactoryFunc [JSNumber (Finite x)] = Inr \<lparr>width = trunc x, height = - 1\<rparr>
        \<and> \<bar>real_of_int (trunc x)\<bar> \<le> \<bar>x\<bar> \<and> \<bar>x - real_of_int (trunc x)\<bar> < 1)
   \<and> (in_int_range (trunc x) \<and> in_int_range (trunc y) \<longrightarrow>
        centerCropFactoryFunc [JSNumber (Finite x), JSNumber (Finite y)] =
          Inr \<lparr>width = trunc x, height = trunc y\<rparr>)"
proof (intro conjI impI)
  show "centerCropFactoryFunc [] = Inr \<lparr>width = - 1, height = - 1\<rparr>"
    by (rule factory_no_arguments)
next
  show "centerCropFactoryFunc [JSNumber (Finite (- 1))] = centerCropFactoryFunc []"
    by (simp add: centerCropFactoryFunc_def asNumber_def int_of_double_minus_one)
next
  assume a: "centerCropFactoryFunc [JSNumber (Finite (- 1)), h] = Inr spec"
  from factory_width [OF a] show w: "width spec = - 1"
    by (simp add: int_of_double_minus_one)
  show "centerCropFunc spec rt args = centerCropFunc \<lparr>width = - 1, height = - 1\<rparr> rt args"
    using w by (rule centerCropFunc_unset_width)
  show c: "cropSize spec (iW, iH) = (min iW iH, min iW iH)"
    using w by (rule cropSize_unset_width)
  assume b: "parseTensor rt v = Inr t \<and> sizes t = lead @ [H, W]
             \<and> 0 \<le> H \<and> H \<le> INT_MAX \<and> 0 \<le> W \<and> W \<le> INT_MAX"
  have c': "cropSize spec (W, H) = (min W H, min W H)"
    using w by (rule cropSize_unset_width)
  have m: "0 \<le> min W H" "min W H \<le> H" "min W H \<le> W"
    using b by simp_all
  from b have b1: "parseTensor rt v = Inr t" and b2: "sizes t = lead @ [H, W]"
    and b3: "0 \<le> H" and b4: "H \<le> INT_MAX" and b5: "0 \<le> W" and b6: "W \<le> INT_MAX"
    by simp_all
  from centerCropFunc_in_range [OF b1 b2 b3 b4 b5 b6 c' m(1) m(2) m(1) m(3)]
  obtain r where "returnedTensor (centerCropFunc spec rt [v]) = Inr r"
    and "sizes r = lead @ [min W H, min W H]"
    by blast
  then show "\<exists>r. returnedTensor (centerCropFunc spec rt [v]) = Inr r
                  \<and> sizes r = lead @ [min H W, min H W]"
    by (simp add: min.commute)
next
  show "centerCropFactoryFunc [w, JSNumber (Finite (- 1))] = centerCropFactoryFunc [w]"
    by (simp add: centerCropFactoryFunc_def asNumber_def int_of_double_minus_one
        split: sum.splits)
next
  assume a: "centerCropFactoryFunc [w, JSNumber (Finite (- 1))] = Inr spec'"
  from factory_height [OF a] show h: "height spec' = - 1"
    by (simp add: int_of_double_minus_one)
  {
    assume "width spec' \<noteq> - 1"
    then show "cropSize spec' (iW, iH) = (width spec', width spec')"
      using h by (rule cropSize_unset_height)
  }
  assume b: "parseTensor rt v = Inr t \<and> sizes t = lead @ [H, W]
             \<and> 0 \<le> H \<and> H \<le> INT_MAX \<and> 0 \<le> W \<and> W \<le> INT_MAX
             \<and> 0 \<le> width spec' \<and> width spec' \<le> H \<and> width spec' \<le> W"
  from b have b1: "parseTensor rt v = Inr t" and b2: "sizes t = lead @ [H, W]"
    and b3: "0 \<le> H" and b4: "H \<le> INT_MAX" and b5: "0 \<le> W" and b6: "W \<le> INT_MAX"
    and b7: "0 \<le> width spec'" and b8: "width spec' \<le> H" and b9: "width spec' \<le> W"
    by simp_all
  from b7 have "width spec' \<noteq> - 1" by simp
  then have c': "cropSize spec' (W, H) = (width spec', width spec')"
    using h by (rule cropSize_unset_height)
  from centerCropFunc_in_range [OF b1 b2 b3 b4 b5 b6 c' b7 b8 b7 b9]
  show "\<exists>r. returnedTensor (centerCropFunc spec' rt [v]) = Inr r
                  \<and> sizes r = lead @ [width spec', width spec']"
    by blast
next
  assume "in_int_range (trunc x)"
  then show "centerCropFactoryFunc [JSNumber (Finite x)] = Inr \<lparr>width = trunc x, height = - 1\<rparr>"
    by (simp add: centerCropFactoryFunc_def asNumber_def int_of_double_def)
next
  show "\<bar>real_of_int (trunc x)\<bar> \<le> \<bar>x\<bar>"
    using trunc_towards_zero by blast
next
  show "\<bar>x - real_of_int (trunc x)\<bar> < 1"
    using trunc_towards_zero by blast
next
  assume "in_int_range (trunc x) \<and> in_int_range (trunc y)"
  then show "centerCropFactoryFunc [JSNumber (Finite x), JSNumber (Finite y)] =
          Inr \<lparr>width = trunc x, height = trunc y\<rparr>"
    by (simp add: centerCropFactoryFunc_def asNumber_def int_of_double_def)
qed

theorem sentinel_and_truncation_witness:
  "centerCropFactoryFunc [JSNumber (Finite (- 1)), JSNumber (Finite 3)] =
     Inr \<lparr>width = - 1, height = 3\<rparr>
   \<and> cropSize \<lparr>width = - 1, height = 3\<rparr> (5, 7) = (5, 5)
   \<and> map_sum id sizes (returnedTensor (centerCropFunc \<lparr>width = - 1, height = 3\<rparr>
        [TensorHostObject (index_tensor [3, 7, 5])] [JSObject 0])) = Inr [3, 5, 5]
   \<and> centerCropFunc \<lparr>width = - 1, height = 3\<rparr>
        [TensorHostObject (index_tensor [3, 7, 5])] [JSObject 0] =
      centerCropFunc \<lparr>width = - 1, height = - 1\<rparr>
        [TensorHostObject (index_tensor [3, 7, 5])] [JSObject 0]
   \<and> centerCropFactoryFunc [JSNumber (Finite 4), JSNumber (Finite (- 1))] =
        Inr \<lparr>width = 4, height = - 1\<rparr>
   \<and> cropSize \<lparr>width = 4, height = - 1\<rparr> (5, 7) = (4, 4)
   \<and> map_sum id sizes (returnedTensor (centerCropFunc \<lparr>width = 4, height = - 1\<rparr>
        [TensorHostObject (index_tensor [3, 7, 5])] [JSObject 0])) = Inr [3, 4, 4]
   \<and> trunc (47 / 10) = 4
   \<and> centerCropFactoryFunc [JSNumber (Finite (47 / 10))] = Inr \<lparr>width = 4, height = - 1\<rparr>
   \<and> trunc (- (3 / 2)) = - 1
   \<and> centerCropFactoryFunc [JSNumber (Finite (- (3 / 2)))] = centerCropFactoryFunc []
   \<and> centerCropFactoryFunc [JSNumber (Finite (47 / 10)), JSNumber (Finite (- (3 / 2)))] =
        Inr \<lparr>width = 4, height = - 1\<rparr>"
proof -
  note th = sentinel_and_truncation
  let ?t = "index_tensor [3, 7, 5]"
  let ?rt = "[TensorHostObject ?t]"
  have f1: "centerCropFactoryFunc [JSNumber (Finite (- 1)), JSNumber (Finite 3)] =
     Inr \<lparr>width = - 1, height = 3\<rparr>"
    using factory_two_integers [of "- 1" 3]
    by (simp add: in_int_range_def INT_MIN_def INT_MAX_def)
  have f2: "centerCropFactoryFunc [JSNumber (Finite 4), JSNumber (Finite (- 1))] =
        Inr \<lparr>width = 4, height = - 1\<rparr>"
    using factory_two_integers [of 4 "- 1"]
    by (simp add: in_int_range_def INT_MIN_def INT_MAX_def)
  have s: "sizes ?t = [3] @ [7, 5]"
    by (simp add: index_tensor_def)
  have b: "parseTensor ?rt (JSObject 0) = Inr ?t \<and> sizes ?t = [3] @ [7, 5]
      \<and> (0::int) \<le> 7 \<and> 7 \<le> INT_MAX \<and> (0::int) \<le> 5 \<and> 5 \<le> INT_MAX"
    using s by (simp add: parseTensor_single INT_MAX_bound)
  have b': "parseTensor ?rt (JSObject 0) = Inr ?t \<and> sizes ?t = [3] @ [7, 5]
      \<and> (0::int) \<le> 7 \<and> 7 \<le> INT_MAX \<and> (0::int) \<le> 5 \<and> 5 \<le> INT_MAX
      \<and> 0 \<le> width \<lparr>width = 4, height = - 1\<rparr> \<and> width \<lparr>width = 4, height = - 1\<rparr> \<le> 7
      \<and> width \<lparr>width = 4, height = - 1\<rparr> \<le> 5"
    using b by simp
  have t1: "trunc (47 / 10) = 4" and t2: "trunc (- (3 / 2)) = - 1"
    by (simp_all add: trunc_def)
  have r: "in_int_range (trunc (47 / 10))" "in_int_range (trunc (- (3 / 2)))"
    unfolding t1 t2 by (simp_all add: in_int_range_def INT_MIN_def INT_MAX_def)
  from th [where h = "JSNumber (Finite 3)" and spec = "\<lparr>width = - 1, height = 3\<rparr>"
      and rt = ?rt and args = "[JSObject 0]" and iW = 5 and iH = 7 and v = "JSObject 0"
      and t = ?t and lead = "[3]" and H = 7 and W = 5] f1 b
  have a1: "cropSize \<lparr>width = - 1, height = 3\<rparr> (5, 7) = (min 5 7, min 5 7)"
    and a2: "\<exists>r. returnedTensor (centerCropFunc \<lparr>width = - 1, height = 3\<rparr> ?rt [JSObject 0]) = Inr r
               \<and> sizes r = [3] @ [min 7 5, min 7 5]"
    and a3: "centerCropFunc \<lparr>width = - 1, height = 3\<rparr> ?rt [JSObject 0] =
      centerCropFunc \<lparr>width = - 1, height = - 1\<rparr> ?rt [JSObject 0]"
    by blast+
  from th [where w = "JSNumber (Finite 4)" and spec' = "\<lparr>width = 4, height = - 1\<rparr>"
      and rt = ?rt and iW = 5 and iH = 7 and v = "JSObject 0"
      and t = ?t and lead = "[3]" and H = 7 and W = 5] f2 b'
  have a4: "cropSize \<lparr>width = 4, height = - 1\<rparr> (5, 7) =
      (width \<lparr>width = 4, height = - 1\<rparr>, width \<lparr>width = 4, height = - 1\<rparr>)"
    and a5: "\<exists>r. returnedTensor (centerCropFunc \<lparr>width = 4, height = - 1\<rparr> ?rt [JSObject 0]) = Inr r
               \<and> sizes r = [3] @ [width \<lparr>width = 4, height = - 1\<rparr>,
                                    width \<lparr>width = 4, height = - 1\<rparr>]"
    by force+
  from th [where x = "47 / 10"] r(1)
  have c2: "centerCropFactoryFunc [JSNumber (Finite (47 / 10))] = Inr \<lparr>width = 4, height = - 1\<rparr>"
    unfolding t1 by blast
  from th [where x = "- (3 / 2)"] r(2)
  have "centerCropFactoryFunc [JSNumber (Finite (- (3 / 2)))] =
      Inr \<lparr>width = trunc (- (3 / 2)), height = - 1\<rparr>"
    by blast
  then have c3: "centerCropFactoryFunc [JSNumber (Finite (- (3 / 2)))] = centerCropFactoryFunc []"
    unfolding t2 by (simp add: factory_no_arguments)
  from th [where x = "47 / 10" and y = "- (3 / 2)"] r
  have c4: "centerCropFactoryFunc [JSNumber (Finite (47 / 10)), JSNumber (Finite (- (3 / 2)))] =
        Inr \<lparr>width = 4, height = - 1\<rparr>"
    unfolding t1 t2 by blast
  from a2 have a2': "map_sum id sizes (returnedTensor (centerCropFunc \<lparr>width = - 1, height = 3\<rparr>
        ?rt [JSObject 0])) = Inr [3, 5, 5]"
    by auto
  from a5 have a5': "map_sum id sizes (returnedTensor (centerCropFunc \<lparr>width = 4, height = - 1\<rparr>
        ?rt [JSObject 0])) = Inr [3, 4, 4]"
    by auto
  from a1 have a1': "cropSize \<lparr>width = - 1, height = 3\<rparr> (5, 7) = (5, 5)" by simp
  from a4 have a4': "cropSize \<lparr>width = 4, height = - 1\<rparr> (5, 7) = (4, 4)" by simp
  from f1 a1' a2' a3 f2 a4' a5' t1 c2 t2 c3 c4 show ?thesis by blast
qed

text \<open>
  The claim as stated fails where \<open>int\<close> cannot hold the value: the conversion of
  \<open>10000000000.5\<close>, of a NaN or of an infinity to \<open>int\<close> is undefined, so nothing is
  captured; and for the element-free tensor of shape \<open>[0, 4294967301, 7]\<close>, read as 5 by
  7, \<open>centerCrop(-1)\<close> returns the shape \<open>[0, 5, 5]\<close>, which is not the \<open>min H W\<close>
  square \<open>[0, 7, 7]\<close>.
\<close>

theorem sentinel_and_truncation_counterexample:
  "centerCropFactoryFunc [JSNumber (Finite (20000000001 / 2))] = Inl UndefinedBehaviour
   \<and> centerCropFactoryFunc [JSNumber NaN] = Inl UndefinedBehaviour
   \<and> centerCropFactoryFunc [JSNumber PosInfinity] = Inl UndefinedBehaviour
   \<and> centerCropFactoryFunc [JSNumber (Finite (- 1))] = Inr \<lparr>width = - 1, height = - 1\<rparr>
   \<and> min 4294967301 7 = (7 :: int)
   \<and> map_sum id sizes (returnedTensor (centerCropFunc \<lparr>width = - 1, height = - 1\<rparr>
        [TensorHostObject (index_tensor [0, 4294967301, 7])] [JSObject 0])) = Inr [0, 5, 5]"
proof -
  have t: "trunc (20000000001 / 2) = 10000000000"
    by (simp add: trunc_def)
  have c1: "centerCropFactoryFunc [JSNumber (Finite (20000000001 / 2))] = Inl UndefinedBehaviour"
    by (simp add: centerCropFactoryFunc_def asNumber_def int_of_double_def t
        in_int_range_def INT_MIN_def INT_MAX_def)
  have c2: "centerCropFactoryFunc [JSNumber NaN] = Inl UndefinedBehaviour"
    and c3: "centerCropFactoryFunc [JSNumber PosInfinity] = Inl UndefinedBehaviour"
    by (simp_all add: centerCropFactoryFunc_def asNumber_def int_of_double_def)
  have c4: "centerCropFactoryFunc [JSNumber (Finite (- 1))] = Inr \<lparr>width = - 1, height = - 1\<rparr>"
    by (simp add: centerCropFactoryFunc_def asNumber_def int_of_double_minus_one)
  have c5: "map_sum id sizes (returnedTensor (centerCropFunc \<lparr>width = - 1, height = - 1\<rparr>
        [TensorHostObject (index_tensor [0, 4294967301, 7])] [JSObject 0])) = Inr [0, 5, 5]"
    by (simp add: returnedTensor_centerCropFunc [OF parseTensor_single]
      getImageSize_def at_index_def size_t_sub_def int_of_int64_def
      cropGeometry_def cropSize_def int_sub_def int_div_def narrowToCrop_unfold narrow_def
      ndimension_def index_tensor_def Let_def in_int_range_def INT_MIN_def INT_MAX_def)
  from c1 c2 c3 c4 c5 show ?thesis by simp
qed

subsection \<open>Tensors of fewer than two dimensions\<close>

text \<open>
  Claim C10. \<open>getImageSize\<close> reads the shape at \<open>length - 1\<close> and \<open>length - 2\<close> and
  checks nothing. For a tensor of fewer than two dimensions the unsigned \<open>length - 2\<close>
  wraps around to an index of at least \<open>2^64 - 2\<close>, the read is past the end of the shape
  (the index lookup gives \<open>None\<close>) and the invocation has no defined outcome. For a
  tensor of at least two dimensions both reads are inside the shape and give its last two
  sizes.
\<close>

theorem image_size_needs_two_dimensions:
  "(length (sizes t) < 2 \<longrightarrow>
      18446744073709551614 \<le> size_t_sub (length (sizes t)) 2
      \<and> at_index (sizes t) (size_t_sub (length (sizes t)) 2) = None
      \<and> getImageSize t = Inl UndefinedBehaviour
      \<and> (parseTensor rt v = Inr t \<longrightarrow>
           centerCropFunc spec rt [v] = (Inl UndefinedBehaviour, rt)))
   \<and> (2 \<le> length (sizes t) \<longrightarrow>
        at_index (sizes t) (size_t_sub (length (sizes t)) 1) = Some (last (sizes t))
        \<and> at_index (sizes t) (size_t_sub (length (sizes t)) 2) =
            Some (sizes t ! (length (sizes t) - 2))
        \<and> getImageSize t =
            Inr (int_of_int64 (last (sizes t)),
                 int_of_int64 (sizes t ! (length (sizes t) - 2))))"
proof (intro conjI impI)
  assume short: "length (sizes t) < 2"
  show "18446744073709551614 \<le> size_t_sub (length (sizes t)) 2"
    using short by (simp add: size_t_sub_def)
  show "at_index (sizes t) (size_t_sub (length (sizes t)) 2) = None"
    using short by (simp add: size_t_sub_def at_index_def)
  show u: "getImageSize t = Inl UndefinedBehaviour"
    using short by (rule getImageSize_short)
  assume "parseTensor rt v = Inr t"
  with u show "centerCropFunc spec rt [v] = (Inl UndefinedBehaviour, rt)"
    by (simp add: centerCropFunc_unfold)
next
  assume long: "2 \<le> length (sizes t)"
  then have ne: "sizes t \<noteq> []" by auto
  show a1: "at_index (sizes t) (size_t_sub (length (sizes t)) 1) = Some (last (sizes t))"
    using long ne by (simp add: size_t_sub_def at_index_def last_conv_nth)
  show a2: "at_index (sizes t) (size_t_sub (length (sizes t)) 2) =
            Some (sizes t ! (length (sizes t) - 2))"
    using long by (simp add: size_t_sub_def at_index_def)
  show "getImageSize t =
            Inr (int_of_int64 (last (sizes t)),
                 int_of_int64 (sizes t ! (length (sizes t) - 2)))"
    unfolding getImageSize_def Let_def a1 a2 by simp
qed

theorem image_size_needs_two_dimensions_witness:
  "length (sizes (index_tensor [7])) < 2
   \<and> size_t_sub (length (sizes (index_tensor [7]))) 2 = 18446744073709551615
   \<and> getImageSize (index_tensor [7]) = Inl UndefinedBehaviour
   \<and> getImageSize (index_tensor []) = Inl UndefinedBehaviour
   \<and> centerCropFunc \<lparr>width = - 1, height = - 1\<rparr> [TensorHostObject (index_tensor [7])]
        [JSObject 0] = (Inl UndefinedBehaviour, [TensorHostObject (index_tensor [7])])
   \<and> getImageSize (index_tensor [7, 5]) = Inr (5, 7)"
proof -
  note th = image_size_needs_two_dimensions
  have l1: "length (sizes (index_tensor [7])) < 2"
    and l0: "length (sizes (index_tensor [])) < 2"
    and l2: "2 \<le> length (sizes (index_tensor [7, 5]))"
    by (simp_all add: index_tensor_def)
  have w: "size_t_sub (length (sizes (index_tensor [7]))) 2 = 18446744073709551615"
    by (simp add: index_tensor_def size_t_sub_def)
  from th [of "index_tensor [7]" "[TensorHostObject (index_tensor [7])]" "JSObject 0"
      "\<lparr>width = - 1, height = - 1\<rparr>"] l1 parseTensor_single [of "index_tensor [7]"]
  have c1: "getImageSize (index_tensor [7]) = Inl UndefinedBehaviour"
    and c2: "centerCropFunc \<lparr>width = - 1, height = - 1\<rparr> [TensorHostObject (index_tensor [7])]
        [JSObject 0] = (Inl UndefinedBehaviour, [TensorHostObject (index_tensor [7])])"
    by blast+
  from th [of "index_tensor []"] l0
  have c3: "getImageSize (index_tensor []) = Inl UndefinedBehaviour"
    by blast
  from th [of "index_tensor [7, 5]"] l2
  have "getImageSize (index_tensor [7, 5]) =
      Inr (int_of_int64 (last (sizes (index_tensor [7, 5]))),
           int_of_int64 (sizes (index_tensor [7, 5]) ! (length (sizes (index_tensor [7, 5])) - 2)))"
    by blast
  then have c4: "getImageSize (index_tensor [7, 5]) = Inr (5, 7)"
    by (simp add: index_tensor_def int_of_int64_def)
  from l1 w c1 c3 c2 c4 show ?thesis by blast
qed

end
